theory Spec2Isabelle
  imports Complex_Main "HOL-Library.Word"
begin

section \<open>Arrays, floats and exceptions\<close>

text \<open>
  The notebooks work on numpy arrays held in an EOPatch. An array is modelled by its
  shape and an indexing function; only the cells inside the shape belong to the array.
  A feature with a time axis (shape \<open>(T, H, W, C)\<close>) keeps its frames in a list, because
  the code iterates over them (\<^verbatim>\<open>for ndwi in eopatch.data['NDWI']\<close>); a single frame
  or a timeless feature has shape \<open>(H, W, C)\<close>.

  A Python float is an IEEE double: a finite one is the real number it denotes, and the
  three special values are kept apart. Comparisons of doubles are exact. The arithmetic
  of the coverage, on which the filter's decision depends, is rounded as the machine
  rounds it (\<open>round_double\<close> below). Python exceptions are values of \<open>error\<close>;
  \<open>LibraryError\<close> stands for any exception that only a library function raises.
\<close>

datatype error = ValueError | IndexError | ZeroDivisionError | LibraryError

datatype fl = NaN | MInf | Fin real | PInf

type_synonym uint8 = "8 word"

record 'a array3 =
  height :: nat
  width :: nat
  channels :: nat
  cell :: "nat \<Rightarrow> nat \<Rightarrow> nat \<Rightarrow> 'a"

record 'a array4 =
  frame_height :: nat
  frame_width :: nat
  frame_channels :: nat
  frames :: "(nat \<Rightarrow> nat \<Rightarrow> nat \<Rightarrow> 'a) list"

text \<open>Frame \<open>f\<close> of a stack, as the array the loop body receives.\<close>

definition frame_of :: "'a array4 \<Rightarrow> (nat \<Rightarrow> nat \<Rightarrow> nat \<Rightarrow> 'a) \<Rightarrow> 'a array3" where
  "frame_of a f = \<lparr>height = frame_height a, width = frame_width a,
                   channels = frame_channels a, cell = f\<rparr>"

text \<open>The index triples of a shape in row-major order, and the cells in that order.\<close>

definition indices3 :: "nat \<Rightarrow> nat \<Rightarrow> nat \<Rightarrow> (nat \<times> nat \<times> nat) list" where
  "indices3 h w c = [(i, j, k). i \<leftarrow> [0..<h], j \<leftarrow> [0..<w], k \<leftarrow> [0..<c]]"

definition ravel :: "'a array3 \<Rightarrow> 'a list" where
  "ravel a = map (\<lambda>(i, j, k). cell a i j k) (indices3 (height a) (width a) (channels a))"

text \<open>\<^verbatim>\<open>np.size\<close>: the product of the shape.\<close>

definition np_size :: "'a array3 \<Rightarrow> nat" where
  "np_size a = height a * width a * channels a"

text \<open>\<^verbatim>\<open>np.count_nonzero\<close> on a boolean array and on a \<^verbatim>\<open>uint8\<close> array.\<close>

definition count_nonzero :: "bool array3 \<Rightarrow> nat" where
  "count_nonzero a = length (filter (\<lambda>b. b) (ravel a))"

definition count_nonzero_uint8 :: "uint8 array3 \<Rightarrow> nat" where
  "count_nonzero_uint8 a = length (filter (\<lambda>v. v \<noteq> 0) (ravel a))"

text \<open>
  numpy broadcasting of one axis: two lengths combine when they are equal or one of them
  is 1; the axis of length 1 is then read at index 0 for every index of the result.
\<close>

definition compatible :: "nat \<Rightarrow> nat \<Rightarrow> bool" where
  "compatible d d' = (d = d' \<or> d = 1 \<or> d' = 1)"

definition broadcast_dim :: "nat \<Rightarrow> nat \<Rightarrow> nat" where
  "broadcast_dim d d' = (if d = 1 then d' else d)"

definition bc_index :: "nat \<Rightarrow> nat \<Rightarrow> nat" where
  "bc_index d i = (if d = 1 then 0 else i)"

text \<open>
  The EOPatch of the water-monitor notebook: the features its tasks read and write. Every
  other feature of the patch is in the record's extension slot (\<open>more\<close>). An output
  feature that has not been written yet is \<open>None\<close>.
\<close>

record eopatch =
  NDWI :: "fl array4"
  IS_DATA :: "uint8 array4"
  CLM :: "uint8 array4"
  NOMINAL_WATER :: "uint8 array3"
  WATER_MASK :: "uint8 array4 option"
  WATER_LEVEL :: "real list option"

section \<open>Validity mask\<close>

text \<open>
  \<^verbatim>\<open>
  def calculate_valid_data_mask(eopatch):
      is_data = eopatch.mask['IS_DATA'].astype(np.bool)
      not_cloud = ~eopatch.mask['CLM'].astype(np.bool)
      return is_data & not_cloud
  \<close>
  Both features have shape \<open>(T, H, W, C)\<close>. \<^verbatim>\<open>astype(np.bool)\<close> maps a number to
  "is not zero"; \<^verbatim>\<open>&\<close> broadcasts its operands and raises ValueError when the shapes
  do not combine.
\<close>

definition astype_bool :: "uint8 \<Rightarrow> bool" where
  "astype_bool v = (v \<noteq> 0)"

definition calculate_valid_data_mask :: "'m eopatch_scheme \<Rightarrow> error + bool array4" where
  "calculate_valid_data_mask eopatch =
     (let is_data_feature = IS_DATA eopatch; clm_feature = CLM eopatch;
          t1 = length (frames is_data_feature); t2 = length (frames clm_feature);
          h1 = frame_height is_data_feature; h2 = frame_height clm_feature;
          w1 = frame_width is_data_feature; w2 = frame_width clm_feature;
          c1 = frame_channels is_data_feature; c2 = frame_channels clm_feature
      in if compatible t1 t2 \<and> compatible h1 h2 \<and> compatible w1 w2 \<and> compatible c1 c2
         then Inr \<lparr>frame_height = broadcast_dim h1 h2, frame_width = broadcast_dim w1 w2,
                   frame_channels = broadcast_dim c1 c2,
                   frames = map (\<lambda>t. \<lambda>i j k.
                       (let is_data = astype_bool
                              ((frames is_data_feature ! bc_index t1 t)
                                 (bc_index h1 i) (bc_index w1 j) (bc_index c1 k));
                            not_cloud = \<not> astype_bool
                              ((frames clm_feature ! bc_index t2 t)
                                 (bc_index h2 i) (bc_index w2 j) (bc_index c2 k))
                        in is_data \<and> not_cloud))
                     [0..<broadcast_dim t1 t2]\<rparr>
         else Inl ValueError)"

section \<open>Coverage filter\<close>

text \<open>
  \<^verbatim>\<open>
  def calculate_coverage(array):
      return 1.0 - np.count_nonzero(array) / np.size(array)

  class ValidDataCoveragePredicate:
      def __init__(self, threshold):
          self.threshold = threshold
      def __call__(self, array):
          return calculate_coverage(array) < self.threshold
  \<close>
  Both counts are Python integers, so an array without cells raises ZeroDivisionError.
  The quotient of two integers is the double nearest to the exact quotient, and the
  difference of two doubles is the double nearest to the exact difference; ties go to
  the even significand.

  \<open>round_double x\<close> is the double nearest to \<open>x\<close> for \<open>0 \<le> x < 2\<close>, the range of
  both operations here: \<open>x\<close> is doubled \<open>k\<close> times until it reaches 1 (at most 1022 times,
  below which doubles are subnormal), and is then rounded to a multiple of
  \<open>2 ^ - (k + 52)\<close>, the spacing of the doubles around it.
\<close>

definition round_half_even :: "real \<Rightarrow> int" where
  "round_half_even y =
     (let f = \<lfloor>y\<rfloor>; r = y - of_int f
      in if r < 1 / 2 then f else if 1 / 2 < r then f + 1 else if even f then f else f + 1)"

fun doublings :: "nat \<Rightarrow> real \<Rightarrow> nat" where
  "doublings 0 x = 0"
| "doublings (Suc n) x = (if 1 \<le> x then 0 else Suc (doublings n (2 * x)))"

definition round_double :: "real \<Rightarrow> real" where
  "round_double x =
     (if x = 0 then 0
      else (let k = doublings 1022 x
            in real_of_int (round_half_even (x * 2 ^ (k + 52))) / 2 ^ (k + 52)))"

definition calculate_coverage :: "bool array3 \<Rightarrow> error + real" where
  "calculate_coverage array =
     (if np_size array = 0 then Inl ZeroDivisionError
      else Inr (round_double
                  (1 - round_double (real (count_nonzero array) / real (np_size array)))))"

definition ValidDataCoveragePredicate :: "real \<Rightarrow> bool array3 \<Rightarrow> error + bool" where
  "ValidDataCoveragePredicate threshold array =
     (case calculate_coverage array of
        Inl e \<Rightarrow> Inl e
      | Inr coverage \<Rightarrow> Inr (coverage < threshold))"

text \<open>
  Modelled from the spec: the filter task that applies the predicate
  (\<^verbatim>\<open>SimpleFilterTask((FeatureType.MASK, 'VALID_DATA'), ValidDataCoveragePredicate(...))\<close>)
  is a library class. It calls the predicate on every frame in order and keeps the frames
  for which it returns true, in their original relative order; an exception of the
  predicate ends the task.
\<close>

fun filter_frames :: "('f \<Rightarrow> error + bool) \<Rightarrow> 'f list \<Rightarrow> error + 'f list" where
  "filter_frames p [] = Inr []"
| "filter_frames p (x # xs) =
     (case p x of
        Inl e \<Rightarrow> Inl e
      | Inr keep \<Rightarrow>
          (case filter_frames p xs of
             Inl e \<Rightarrow> Inl e
           | Inr ys \<Rightarrow> Inr (if keep then x # ys else ys)))"

definition remove_cloudy_scenes :: "real \<Rightarrow> bool array4 \<Rightarrow> error + bool array4" where
  "remove_cloudy_scenes threshold valid_data =
     (case filter_frames (\<lambda>f. ValidDataCoveragePredicate threshold (frame_of valid_data f))
             (frames valid_data) of
        Inl e \<Rightarrow> Inl e
      | Inr kept \<Rightarrow> Inr (valid_data\<lparr>frames := kept\<rparr>))"

section \<open>Water detection\<close>

text \<open>A two-dimensional array: the channel-0 plane of a frame, or a mask over it.\<close>

record 'a array2 =
  rows :: nat
  cols :: nat
  px :: "nat \<Rightarrow> nat \<Rightarrow> 'a"

definition ravel2 :: "'a array2 \<Rightarrow> 'a list" where
  "ravel2 a = [px a i j. i \<leftarrow> [0..<rows a], j \<leftarrow> [0..<cols a]]"

text \<open>The float comparison \<^verbatim>\<open>x > y\<close>: false whenever an operand is NaN.\<close>

fun fl_gt :: "fl \<Rightarrow> fl \<Rightarrow> bool" where
  "fl_gt NaN y = False"
| "fl_gt x NaN = False"
| "fl_gt MInf y = False"
| "fl_gt x PInf = False"
| "fl_gt PInf y = True"
| "fl_gt (Fin a) MInf = True"
| "fl_gt (Fin a) (Fin b) = (b < a)"

definition isnan :: "fl \<Rightarrow> bool" where
  "isnan x = (x = NaN)"

text \<open>
  \<^verbatim>\<open>len(np.unique(a))\<close>. numpy from 1.21 on collapses all NaNs into one entry
  (\<open>equal_nan\<close>); earlier releases list every NaN separately, because NaN differs from
  itself. The flag selects the behaviour, so that results hold for both.
\<close>

definition len_unique :: "bool \<Rightarrow> fl list \<Rightarrow> nat" where
  "len_unique equal_nan xs =
     (if equal_nan then length (remdups xs)
      else length (remdups (filter (\<lambda>x. \<not> isnan x) xs)) + length (filter isnan xs))"

text \<open>
  \<^verbatim>\<open>
  @staticmethod
  def detect_water(ndwi):
      otsu_thr = 1.0
      if len(np.unique(ndwi)) > 1:
          ndwi[np.isnan(ndwi)] = -1
          otsu_thr = threshold_otsu(ndwi)
      return ndwi > otsu_thr
  \<close>
  \<^verbatim>\<open>threshold_otsu\<close> is a function of scikit-image and a parameter here; it may raise.
  The assignment writes into the caller's array, so the function returns the array as it
  is after the call together with its result.
\<close>

type_synonym otsu = "fl array2 \<Rightarrow> error + fl"

definition greater_than :: "fl array2 \<Rightarrow> fl \<Rightarrow> bool array2" where
  "greater_than a thr = \<lparr>rows = rows a, cols = cols a, px = (\<lambda>i j. fl_gt (px a i j) thr)\<rparr>"

definition replace_nan :: "fl array2 \<Rightarrow> fl array2" where
  "replace_nan a = a\<lparr>px := (\<lambda>i j. if isnan (px a i j) then Fin (- 1) else px a i j)\<rparr>"

definition detect_water :: "bool \<Rightarrow> otsu \<Rightarrow> fl array2 \<Rightarrow> fl array2 \<times> (error + bool array2)" where
  "detect_water equal_nan threshold_otsu ndwi =
     (if 1 < len_unique equal_nan (ravel2 ndwi)
      then (let ndwi' = replace_nan ndwi
            in case threshold_otsu ndwi' of
                 Inl e \<Rightarrow> (ndwi', Inl e)
               | Inr otsu_thr \<Rightarrow> (ndwi', Inr (greater_than ndwi' otsu_thr)))
      else (ndwi, Inr (greater_than ndwi (Fin 1))))"

text \<open>
  \<^verbatim>\<open>[self.detect_water(ndwi[...,0]) for ndwi in eopatch.data['NDWI']]\<close>: the detector
  runs on the channel-0 view of every frame, in order. Indexing channel 0 of a frame
  without channels raises IndexError. What the detector writes goes through the view into
  the frame; the first component is the list of frames after the loop.
\<close>

definition view0 :: "nat \<Rightarrow> nat \<Rightarrow> (nat \<Rightarrow> nat \<Rightarrow> nat \<Rightarrow> 'a) \<Rightarrow> 'a array2" where
  "view0 h w f = \<lparr>rows = h, cols = w, px = (\<lambda>i j. f i j 0)\<rparr>"

definition write_view0 :: "'a array2 \<Rightarrow> (nat \<Rightarrow> nat \<Rightarrow> nat \<Rightarrow> 'a) \<Rightarrow> (nat \<Rightarrow> nat \<Rightarrow> nat \<Rightarrow> 'a)" where
  "write_view0 v f = (\<lambda>i j k. if k = 0 then px v i j else f i j k)"

fun detect_frames ::
  "bool \<Rightarrow> otsu \<Rightarrow> nat \<Rightarrow> nat \<Rightarrow> nat \<Rightarrow> (nat \<Rightarrow> nat \<Rightarrow> nat \<Rightarrow> fl) list
     \<Rightarrow> (nat \<Rightarrow> nat \<Rightarrow> nat \<Rightarrow> fl) list \<times> (error + bool array2 list)" where
  "detect_frames equal_nan threshold_otsu h w c [] = ([], Inr [])"
| "detect_frames equal_nan threshold_otsu h w c (f # fs) =
     (if c = 0 then (f # fs, Inl IndexError)
      else (case detect_water equal_nan threshold_otsu (view0 h w f) of
              (view', r) \<Rightarrow>
                (let f' = write_view0 view' f
                 in case r of
                      Inl e \<Rightarrow> (f' # fs, Inl e)
                    | Inr m \<Rightarrow>
                        (case detect_frames equal_nan threshold_otsu h w c fs of
                           (fs', r') \<Rightarrow>
                             (f' # fs',
                              case r' of Inl e \<Rightarrow> Inl e | Inr ms \<Rightarrow> Inr (m # ms))))))"

text \<open>
  \<^verbatim>\<open>water_masks[...,np.newaxis] * eopatch.mask_timeless['NOMINAL_WATER']\<close> for at least
  one frame: shape \<open>(T, h, w, 1)\<close> times shape \<open>(H, W, C)\<close>, a \<^verbatim>\<open>uint8\<close> array of shape
  \<open>(T, h\<star>H, w\<star>W, C)\<close>, or ValueError when \<open>h, H\<close> or \<open>w, W\<close> do not combine.
\<close>

definition mask_by_nominal :: "nat \<Rightarrow> nat \<Rightarrow> bool array2 list \<Rightarrow> uint8 array3 \<Rightarrow> error + uint8 array4" where
  "mask_by_nominal h w water_masks nominal =
     (if compatible h (height nominal) \<and> compatible w (width nominal)
      then Inr \<lparr>frame_height = broadcast_dim h (height nominal),
                frame_width = broadcast_dim w (width nominal),
                frame_channels = channels nominal,
                frames = map (\<lambda>m. \<lambda>i j k.
                    of_bool (px m (bc_index h i) (bc_index w j))
                      * cell nominal (bc_index (height nominal) i) (bc_index (width nominal) j) k)
                  water_masks\<rparr>
      else Inl ValueError)"

text \<open>
  \<^verbatim>\<open>
  def execute(self, eopatch):
      water_masks = np.asarray([self.detect_water(ndwi[...,0]) for ndwi in eopatch.data['NDWI']])

      # we're only interested in the water within the dam borders
      water_masks = water_masks[...,np.newaxis] * eopatch.mask_timeless['NOMINAL_WATER']

      water_levels = np.asarray([np.count_nonzero(mask)/np.count_nonzero(eopatch.mask_timeless['NOMINAL_WATER'])
                                 for mask in water_masks])

      eopatch[FeatureType.MASK, 'WATER_MASK'] = water_masks
      eopatch[FeatureType.SCALAR, 'WATER_LEVEL'] = water_levels[...,np.newaxis]

      return eopatch
  \<close>
  The task changes the patch it is given and returns it: the result is the patch after
  the call and the exception raised, if any.

  Without frames, \<^verbatim>\<open>np.asarray([])\<close> has shape \<open>(0,)\<close>: the product is taken between
  shapes \<open>(0, 1)\<close> and \<open>(H, W, C)\<close>, which combine only for \<open>W \<le> 1\<close>, and has the
  three-dimensional shape \<open>(H, 0, C)\<close>. The loop then divides once per row of the nominal
  mask, and the assignment of a three-dimensional array to a MASK feature, which has four
  axes, is refused by the EOPatch with ValueError.
\<close>

definition execute :: "bool \<Rightarrow> otsu \<Rightarrow> 'm eopatch_scheme \<Rightarrow> 'm eopatch_scheme \<times> error option" where
  "execute equal_nan threshold_otsu eopatch =
     (let ndwi = NDWI eopatch; nominal = NOMINAL_WATER eopatch
      in case detect_frames equal_nan threshold_otsu
                (frame_height ndwi) (frame_width ndwi) (frame_channels ndwi) (frames ndwi) of
           (frames', r) \<Rightarrow>
             (let eopatch' = eopatch\<lparr>NDWI := ndwi\<lparr>frames := frames'\<rparr>\<rparr>
              in case r of
                   Inl e \<Rightarrow> (eopatch', Some e)
                 | Inr [] \<Rightarrow>
                     (if \<not> compatible 0 (width nominal) then (eopatch', Some ValueError)
                      else if 0 < height nominal \<and> count_nonzero_uint8 nominal = 0
                      then (eopatch', Some ZeroDivisionError)
                      else (eopatch', Some ValueError))
                 | Inr (m # ms) \<Rightarrow>
                     (case mask_by_nominal (frame_height ndwi) (frame_width ndwi) (m # ms) nominal of
                        Inl e \<Rightarrow> (eopatch', Some e)
                      | Inr water_masks \<Rightarrow>
                          (if count_nonzero_uint8 nominal = 0
                           then (eopatch', Some ZeroDivisionError)
                           else (eopatch'\<lparr>WATER_MASK := Some water_masks,
                                   WATER_LEVEL := Some
                                     (map (\<lambda>mask. real (count_nonzero_uint8 (frame_of water_masks mask))
                                                   / real (count_nonzero_uint8 nominal))
                                        (frames water_masks))\<rparr>,
                                 None)))))"

text \<open>
  The detector as the specification words it, for comparison with the code: NaN values
  are replaced first, then the replaced frame is tested for more than one distinct
  value, and a pixel is water when its replaced value is greater than the threshold.
  It is a function of the frame and returns the mask only.
\<close>

definition detect_water_spec :: "bool \<Rightarrow> otsu \<Rightarrow> fl array2 \<Rightarrow> error + bool array2" where
  "detect_water_spec equal_nan threshold_otsu ndwi =
     (let replaced = replace_nan ndwi
      in if 1 < len_unique equal_nan (ravel2 replaced)
         then (case threshold_otsu replaced of
                 Inl e \<Rightarrow> Inl e
               | Inr otsu_thr \<Rightarrow> Inr (greater_than replaced otsu_thr))
         else Inr (greater_than replaced (Fin 1)))"

section \<open>OpenStreetMap input task\<close>

text \<open>
  \<^verbatim>\<open>
  class OsmInputTask(EOTask):
      def __init__(self, feature, query, polygonize=True, **overpass_params):
          self.feature = feature
          self.query = query
          self.polygonize = polygonize
          self.api = overpass.API(overpass_params)

      def execute(self, eopatch):
          if not eopatch.bbox:
              raise ValueError('Each EOPatch requires a bbox to fetch data')

          # handling for various bounds variables
          ll_bounds = eopatch.bbox.transform(CRS.WGS84)
          clip_shape = box(*ll_bounds)
          osm_bbox = tuple([*ll_bounds.reverse()])

          # make the overpass request
          response = self.api.get(f'{self.query}{osm_bbox}', verbosity='geom')

          # clip geometries to bounding box
          for feat in response['features']:
              geom = Polygon(shape(feat['geometry']))
              if self.polygonize:
                  geom = geom.convex_hull
              clipped_geom = geom.intersection(clip_shape)
              feat['geometry'] = mapping(clipped_geom)

          # import to geopandas, transform and return
          gdf = gpd.GeoDataFrame.from_features(response['features'])
          gdf.crs = CRS.WGS84.pyproj_crs()
          gdf = gdf.to_crs(eopatch.bbox.crs.pyproj_crs())
          eopatch[self.feature] = gdf

          return eopatch
  \<close>
  The patch of this notebook has a bounding box, which may be absent (\<^verbatim>\<open>None\<close>), and
  vector features by key. The calls into sentinelhub, overpass, shapely and geopandas
  are parameters, each of which may raise. The requests sent to the Overpass API are
  logged in a list, so that the state is the patch together with the log.
\<close>

record ('b, 'k, 'g) osm_eopatch =
  bbox :: "'b option"
  vector_timeless :: "'k \<rightharpoonup> 'g"

record 'k OsmInputTask =
  feature :: 'k
  query :: string
  polygonize :: bool

record ('b, 'f, 'g) osm_library =
  transform_wgs84 :: "'b \<Rightarrow> error + 'b"
  format_reversed :: "'b \<Rightarrow> string"
  api_get :: "string \<Rightarrow> error + 'f list"
  clip_geometry :: "bool \<Rightarrow> 'b \<Rightarrow> 'f \<Rightarrow> error + 'f"
  to_geodataframe :: "'b \<Rightarrow> 'f list \<Rightarrow> error + 'g"

text \<open>The loop over the features of the response; it stops at the first exception.\<close>

fun clip_features :: "('f \<Rightarrow> error + 'f) \<Rightarrow> 'f list \<Rightarrow> error + 'f list" where
  "clip_features clip [] = Inr []"
| "clip_features clip (feat # feats) =
     (case clip feat of
        Inl e \<Rightarrow> Inl e
      | Inr feat' \<Rightarrow>
          (case clip_features clip feats of
             Inl e \<Rightarrow> Inl e
           | Inr feats' \<Rightarrow> Inr (feat' # feats')))"

definition osm_execute ::
  "('b, 'f, 'g) osm_library \<Rightarrow> 'k OsmInputTask \<Rightarrow> ('b, 'k, 'g) osm_eopatch \<times> string list
     \<Rightarrow> (('b, 'k, 'g) osm_eopatch \<times> string list) \<times> error option" where
  "osm_execute lib self state =
     (case state of (eopatch, requests) \<Rightarrow>
        (case bbox eopatch of
           None \<Rightarrow> ((eopatch, requests), Some ValueError)
         | Some box \<Rightarrow>
             (case transform_wgs84 lib box of
                Inl e \<Rightarrow> ((eopatch, requests), Some e)
              | Inr ll_bounds \<Rightarrow>
                  (let request = query self @ format_reversed lib ll_bounds;
                       requests' = requests @ [request]
                   in case api_get lib request of
                        Inl e \<Rightarrow> ((eopatch, requests'), Some e)
                      | Inr features \<Rightarrow>
                          (case clip_features (clip_geometry lib (polygonize self) ll_bounds)
                                  features of
                             Inl e \<Rightarrow> ((eopatch, requests'), Some e)
                           | Inr clipped \<Rightarrow>
                               (case to_geodataframe lib box clipped of
                                  Inl e \<Rightarrow> ((eopatch, requests'), Some e)
                                | Inr gdf \<Rightarrow>
                                    ((eopatch\<lparr>vector_timeless :=
                                         (vector_timeless eopatch)(feature self \<mapsto> gdf)\<rparr>,
                                      requests'), None)))))))"

section \<open>Example inputs\<close>

text \<open>
  A stand-in for the library's threshold function, used only to run the definitions on
  concrete inputs: the midpoint between the least and the greatest finite value. Every
  result below is proved for an arbitrary function in its place.
\<close>

definition midrange_otsu :: otsu where
  "midrange_otsu a =
     (case [v. Fin v \<leftarrow> ravel2 a] of
        [] \<Rightarrow> Inl ValueError
      | v # vs \<Rightarrow> Inr (Fin ((fold min vs v + fold max vs v) / 2)))"

text \<open>
  One 2 x 2 frame with a NaN pixel and one cloudy pixel, and a nominal extent covering the
  whole grid.
\<close>

definition example_patch :: eopatch where
  "example_patch =
     \<lparr>NDWI = \<lparr>frame_height = 2, frame_width = 2, frame_channels = 1,
              frames = [\<lambda>i j k. if i = 0 then (if j = 0 then Fin 0.8 else Fin 0.2)
                                 else (if j = 0 then Fin 0.6 else NaN)]\<rparr>,
      IS_DATA = \<lparr>frame_height = 2, frame_width = 2, frame_channels = 1,
                 frames = [\<lambda>i j k. 1]\<rparr>,
      CLM = \<lparr>frame_height = 2, frame_width = 2, frame_channels = 1,
             frames = [\<lambda>i j k. if i = 0 \<and> j = 1 then 1 else 0]\<rparr>,
      NOMINAL_WATER = \<lparr>height = 2, width = 2, channels = 1, cell = (\<lambda>i j k. 1)\<rparr>,
      WATER_MASK = None, WATER_LEVEL = None\<rparr>"

text \<open>A validity stack of two 1 x 2 frames: the first fully valid, the second half valid.\<close>

definition example_valid_data :: "bool array4" where
  "example_valid_data =
     \<lparr>frame_height = 1, frame_width = 2, frame_channels = 1,
      frames = [\<lambda>i j k. True, \<lambda>i j k. j = 0]\<rparr>"

text \<open>
  One 1 x 3 frame against a nominal extent of a single pixel: the shapes differ and
  combine by broadcasting.
\<close>

definition broadcast_patch :: eopatch where
  "broadcast_patch =
     \<lparr>NDWI = \<lparr>frame_height = 1, frame_width = 3, frame_channels = 1,
              frames = [\<lambda>i j k. if j = 0 then Fin 0.8 else if j = 1 then Fin 0.6
                                 else Fin (- 0.5)]\<rparr>,
      IS_DATA = \<lparr>frame_height = 1, frame_width = 3, frame_channels = 1,
                 frames = [\<lambda>i j k. 1]\<rparr>,
      CLM = \<lparr>frame_height = 1, frame_width = 3, frame_channels = 1,
             frames = [\<lambda>i j k. 0]\<rparr>,
      NOMINAL_WATER = \<lparr>height = 1, width = 1, channels = 1, cell = (\<lambda>i j k. 1)\<rparr>,
      WATER_MASK = None, WATER_LEVEL = None\<rparr>"

text \<open>The example patch with an empty nominal extent.\<close>

definition empty_extent_patch :: eopatch where
  "empty_extent_patch =
     example_patch\<lparr>NOMINAL_WATER :=
       \<lparr>height = 2, width = 2, channels = 1, cell = (\<lambda>i j k. 0)\<rparr>\<rparr>"

text \<open>The example patch with a cloud mask and a nominal extent on a 3 x 3 grid.\<close>

definition mismatched_patch :: eopatch where
  "mismatched_patch =
     example_patch\<lparr>CLM :=
       \<lparr>frame_height = 3, frame_width = 3, frame_channels = 1, frames = [\<lambda>i j k. 0]\<rparr>,
       NOMINAL_WATER := \<lparr>height = 3, width = 3, channels = 1, cell = (\<lambda>i j k. 1)\<rparr>\<rparr>"



text \<open>
  The threshold of the notebook, \<^verbatim>\<open>cloud_coverage_threshold = 0.05\<close>, and two validity
  frames: 9 of 10 cells valid, and 1 of 5 cells valid.
\<close>

definition cloud_coverage_threshold :: real where
  "cloud_coverage_threshold = round_double (5 / 100)"

definition nine_of_ten :: "bool array3" where
  "nine_of_ten = \<lparr>height = 1, width = 10, channels = 1, cell = (\<lambda>i j k. j < 9)\<rparr>"

definition one_of_five :: "bool array3" where
  "one_of_five = \<lparr>height = 1, width = 5, channels = 1, cell = (\<lambda>i j k. j = 0)\<rparr>"

text \<open>
  A patch without bounding box, a task, and library stand-ins whose geometries are
  numbers and whose Overpass endpoint answers every request with two features.
\<close>

definition no_bbox_patch :: "(nat, string, nat list) osm_eopatch" where
  "no_bbox_patch = \<lparr>bbox = None, vector_timeless = Map.empty\<rparr>"

definition osm_task :: "string OsmInputTask" where
  "osm_task = \<lparr>feature = ''residential'', query = ''way[landuse=residential]'',
               polygonize = False\<rparr>"

definition example_library :: "(nat, nat, nat list) osm_library" where
  "example_library =
     \<lparr>transform_wgs84 = (\<lambda>b. Inr b), format_reversed = (\<lambda>b. ''(0, 0, 1, 1)''),
      api_get = (\<lambda>q. Inr [1, 2]), clip_geometry = (\<lambda>p b f. Inr f),
      to_geodataframe = (\<lambda>b fs. Inr fs)\<rparr>"

section \<open>Properties of the validity mask and the coverage filter\<close>

lemma bc_index_in_bounds: "i < d \<Longrightarrow> bc_index d i = i"
  by (auto simp: bc_index_def)

lemma compatible_refl: "compatible d d"
  by (simp add: compatible_def)

lemma broadcast_dim_same: "broadcast_dim d d = d"
  by (simp add: broadcast_dim_def)

text \<open>
  C4. When the data-presence mask and the cloud mask have the same shape, the validity
  mask has that shape too and every pixel of every frame is the conjunction of "data is
  present" with "not cloud".
\<close>

theorem valid_data_mask_pixelwise:
  assumes "length (frames (IS_DATA eopatch)) = length (frames (CLM eopatch))"
    and "frame_height (IS_DATA eopatch) = frame_height (CLM eopatch)"
    and "frame_width (IS_DATA eopatch) = frame_width (CLM eopatch)"
    and "frame_channels (IS_DATA eopatch) = frame_channels (CLM eopatch)"
  shows "\<exists>valid. calculate_valid_data_mask eopatch = Inr valid
           \<and> length (frames valid) = length (frames (IS_DATA eopatch))
           \<and> frame_height valid = frame_height (IS_DATA eopatch)
           \<and> frame_width valid = frame_width (IS_DATA eopatch)
           \<and> frame_channels valid = frame_channels (IS_DATA eopatch)
           \<and> (\<forall>t < length (frames valid). \<forall>i < frame_height valid.
                 \<forall>j < frame_width valid. \<forall>k < frame_channels valid.
                   (frames valid ! t) i j k
                     = ((frames (IS_DATA eopatch) ! t) i j k \<noteq> 0
                        \<and> \<not> (frames (CLM eopatch) ! t) i j k \<noteq> 0))"
  using assms
  by (simp add: calculate_valid_data_mask_def Let_def compatible_refl broadcast_dim_same
      bc_index_in_bounds astype_bool_def)

theorem valid_data_mask_pixelwise_witness:
  "length (frames (IS_DATA example_patch)) = length (frames (CLM example_patch))
   \<and> frame_height (IS_DATA example_patch) = frame_height (CLM example_patch)
   \<and> frame_width (IS_DATA example_patch) = frame_width (CLM example_patch)
   \<and> frame_channels (IS_DATA example_patch) = frame_channels (CLM example_patch)
   \<and> (\<exists>valid. calculate_valid_data_mask example_patch = Inr valid
         \<and> (frames valid ! 0) 0 0 0 = True \<and> (frames valid ! 0) 0 1 0 = False)"
proof -
  have shape: "length (frames (IS_DATA example_patch)) = length (frames (CLM example_patch))"
    "frame_height (IS_DATA example_patch) = frame_height (CLM example_patch)"
    "frame_width (IS_DATA example_patch) = frame_width (CLM example_patch)"
    "frame_channels (IS_DATA example_patch) = frame_channels (CLM example_patch)"
    by (simp_all add: example_patch_def)
  from valid_data_mask_pixelwise [OF shape] obtain valid
    where v: "calculate_valid_data_mask example_patch = Inr valid"
      and n: "length (frames valid) = length (frames (IS_DATA example_patch))"
        "frame_height valid = frame_height (IS_DATA example_patch)"
        "frame_width valid = frame_width (IS_DATA example_patch)"
        "frame_channels valid = frame_channels (IS_DATA example_patch)"
      and p: "\<And>t i j k. t < length (frames valid) \<Longrightarrow> i < frame_height valid \<Longrightarrow>
                j < frame_width valid \<Longrightarrow> k < frame_channels valid \<Longrightarrow>
                (frames valid ! t) i j k
                  = ((frames (IS_DATA example_patch) ! t) i j k \<noteq> 0
                     \<and> \<not> (frames (CLM example_patch) ! t) i j k \<noteq> 0)"
    by blast
  have "(frames valid ! 0) 0 0 0 = True"
    using p [of 0 0 0 0] n by (simp add: example_patch_def)
  moreover have "(frames valid ! 0) 0 1 0 = False"
    using p [of 0 0 1 0] n by (simp add: example_patch_def)
  ultimately show ?thesis
    using shape v by blast
qed

lemma filter_frames_idem:
  "filter_frames p xs = Inr ys \<Longrightarrow> filter_frames p ys = Inr ys"
proof (induction xs arbitrary: ys)
  case Nil
  then show ?case by simp
next
  case (Cons x xs)
  then show ?case
    by (auto split: sum.splits if_splits)
qed

lemma filter_frames_total:
  "(\<forall>x \<in> set xs. \<exists>b. p x = Inr b) \<Longrightarrow> filter_frames p xs = Inr (filter (\<lambda>x. p x = Inr True) xs)"
  by (induction xs) (auto split: sum.splits)

lemma length_indices3: "length (indices3 h w c) = h * w * c"
  by (simp add: indices3_def length_concat comp_def sum_list_triv)

lemma length_ravel: "length (ravel a) = np_size a"
  by (simp add: ravel_def np_size_def length_indices3)

lemma predicate_value:
  "0 < np_size array \<Longrightarrow>
     ValidDataCoveragePredicate threshold array
       = Inr (round_double
                (1 - round_double (real (count_nonzero array) / real (np_size array)))
              < threshold)"
  by (simp add: ValidDataCoveragePredicate_def calculate_coverage_def)

lemma upt2: "[0..<2] = [0, 1]"
  by (simp add: upt_rec)

lemma upt5: "[0..<5] = [0, 1, 2, 3, 4]"
  by (simp add: upt_rec)

lemma upt10: "[0..<10] = [0, 1, 2, 3, 4, 5, 6, 7, 8, 9]"
  by (simp add: upt_rec)

lemma doublings_unfold:
  "0 < n \<Longrightarrow> doublings n x = (if 1 \<le> x then 0 else Suc (doublings (n - 1) (2 * x)))"
  by (cases n) simp_all

lemmas round_double_eval = round_double_def round_half_even_def doublings_unfold Let_def

lemma round_half_even_error: "\<bar>real_of_int (round_half_even y) - y\<bar> \<le> 1 / 2"
  unfolding round_half_even_def Let_def by (auto split: if_splits)

text \<open>Rounding moves a value by at most half the spacing of the doubles below 2.\<close>

lemma round_double_error: "\<bar>round_double x - x\<bar> \<le> 1 / 2 ^ 53"
proof (cases "x = 0")
  case True
  then show ?thesis by (simp add: round_double_def)
next
  case False
  define k where "k = doublings 1022 x"
  define s :: real where "s = 2 ^ (k + 52)"
  have s: "0 < s" "2 ^ 52 \<le> s"
    by (simp_all add: s_def power_add)
  have "\<bar>real_of_int (round_half_even (x * s)) - x * s\<bar> \<le> 1 / 2"
    by (rule round_half_even_error)
  then have "\<bar>real_of_int (round_half_even (x * s)) / s - x\<bar> \<le> (1 / 2) / s"
    using s(1) by (simp add: field_simps abs_le_iff)
  also have "(1 / 2) / s \<le> (1 / 2) / 2 ^ 52"
    using s by (intro divide_left_mono) simp_all
  also have "\<dots> = 1 / 2 ^ 53" by simp
  finally show ?thesis
    using False by (simp add: round_double_def Let_def k_def s_def)
qed

lemma coverage_error:
  "\<bar>round_double (1 - round_double q) - (1 - q)\<bar> \<le> 1 / 2 ^ 52"
proof -
  have tri: "\<bar>u - v\<bar> \<le> 2 * e" if "\<bar>u\<bar> \<le> e" and "\<bar>v\<bar> \<le> e" for u v e :: real
    using that by linarith
  have "\<bar>round_double (1 - round_double q) - (1 - q)\<bar>
          = \<bar>(round_double (1 - round_double q) - (1 - round_double q))
               - (round_double q - q)\<bar>"
    by simp
  also have "\<dots> \<le> 2 * (1 / 2 ^ 53)"
    by (rule tri) (rule round_double_error)+
  also have "\<dots> = 1 / 2 ^ 52"
    by simp
  finally show ?thesis .
qed

lemma within_error_below: "\<bar>c - r\<bar> \<le> e \<Longrightarrow> r < t - e \<Longrightarrow> c < (t::real)"
  by linarith

lemma within_error_above: "\<bar>c - r\<bar> \<le> e \<Longrightarrow> t + e \<le> r \<Longrightarrow> \<not> c < (t::real)"
  by linarith

text \<open>
  C1. The predicate returns true exactly when the coverage of the frame is computed and
  lies strictly below the threshold. For a frame with at least one cell the coverage is
  1 - (number of true cells / number of cells) as the machine computes it: the quotient
  rounded to a double, and the difference rounded to a double. The predicate returns
  the comparison of that value with the threshold, and the filter keeps exactly the
  frames for which the comparison holds. The computed coverage is within \<open>2 ^ - 52\<close> of
  the exact value, so the decision is that of the exact value whenever the exact value
  is farther than that from the threshold. (A frame without cells raises
  ZeroDivisionError.)
\<close>

theorem coverage_filter_keeps_iff_below_threshold:
  "(ValidDataCoveragePredicate threshold array = Inr True
      \<longleftrightarrow> (\<exists>coverage. calculate_coverage array = Inr coverage \<and> coverage < threshold))
   \<and> (0 < np_size array \<longrightarrow>
        calculate_coverage array
          = Inr (round_double
                   (1 - round_double (real (count_nonzero array) / real (np_size array))))
        \<and> ValidDataCoveragePredicate threshold array
            = Inr (round_double
                     (1 - round_double (real (count_nonzero array) / real (np_size array)))
                   < threshold)
        \<and> (\<exists>coverage. calculate_coverage array = Inr coverage
              \<and> \<bar>coverage - (1 - real (count_nonzero array) / real (np_size array))\<bar>
                  \<le> 1 / 2 ^ 52)
        \<and> (1 - real (count_nonzero array) / real (np_size array) < threshold - 1 / 2 ^ 52
             \<longrightarrow> ValidDataCoveragePredicate threshold array = Inr True)
        \<and> (threshold + 1 / 2 ^ 52 \<le> 1 - real (count_nonzero array) / real (np_size array)
             \<longrightarrow> ValidDataCoveragePredicate threshold array = Inr False))
   \<and> (0 < frame_height stack * frame_width stack * frame_channels stack \<longrightarrow>
        remove_cloudy_scenes threshold stack
          = Inr (stack\<lparr>frames :=
                   filter (\<lambda>f. round_double
                                  (1 - round_double (real (count_nonzero (frame_of stack f))
                                                      / real (np_size (frame_of stack f))))
                                < threshold)
                     (frames stack)\<rparr>))"
proof -
  let ?q = "real (count_nonzero array) / real (np_size array)"
  let ?cov = "round_double (1 - round_double ?q)"
  have iff: "ValidDataCoveragePredicate threshold array = Inr True
      \<longleftrightarrow> (\<exists>coverage. calculate_coverage array = Inr coverage \<and> coverage < threshold)"
    by (auto simp: ValidDataCoveragePredicate_def split: sum.splits)
  have err: "\<bar>?cov - (1 - ?q)\<bar> \<le> 1 / 2 ^ 52"
    by (rule coverage_error)
  have frame: "0 < np_size array \<longrightarrow>
        calculate_coverage array = Inr ?cov
        \<and> ValidDataCoveragePredicate threshold array = Inr (?cov < threshold)
        \<and> (\<exists>coverage. calculate_coverage array = Inr coverage
              \<and> \<bar>coverage - (1 - ?q)\<bar> \<le> 1 / 2 ^ 52)
        \<and> (1 - ?q < threshold - 1 / 2 ^ 52
             \<longrightarrow> ValidDataCoveragePredicate threshold array = Inr True)
        \<and> (threshold + 1 / 2 ^ 52 \<le> 1 - ?q
             \<longrightarrow> ValidDataCoveragePredicate threshold array = Inr False)"
  proof
    assume pos: "0 < np_size array"
    then have c: "calculate_coverage array = Inr ?cov"
      by (simp add: calculate_coverage_def)
    have p: "ValidDataCoveragePredicate threshold array = Inr (?cov < threshold)"
      using pos by (rule predicate_value)
    have below: "1 - ?q < threshold - 1 / 2 ^ 52
             \<longrightarrow> ValidDataCoveragePredicate threshold array = Inr True"
    proof
      assume "1 - ?q < threshold - 1 / 2 ^ 52"
      with err have "?cov < threshold" by (rule within_error_below)
      then show "ValidDataCoveragePredicate threshold array = Inr True"
        by (simp only: p)
    qed
    have above: "threshold + 1 / 2 ^ 52 \<le> 1 - ?q
             \<longrightarrow> ValidDataCoveragePredicate threshold array = Inr False"
    proof
      assume "threshold + 1 / 2 ^ 52 \<le> 1 - ?q"
      with err have "\<not> ?cov < threshold" by (rule within_error_above)
      then show "ValidDataCoveragePredicate threshold array = Inr False"
        by (simp only: p)
    qed
    have bound: "\<exists>coverage. calculate_coverage array = Inr coverage
              \<and> \<bar>coverage - (1 - ?q)\<bar> \<le> 1 / 2 ^ 52"
      using c err by blast
    show "calculate_coverage array = Inr ?cov
        \<and> ValidDataCoveragePredicate threshold array = Inr (?cov < threshold)
        \<and> (\<exists>coverage. calculate_coverage array = Inr coverage
              \<and> \<bar>coverage - (1 - ?q)\<bar> \<le> 1 / 2 ^ 52)
        \<and> (1 - ?q < threshold - 1 / 2 ^ 52
             \<longrightarrow> ValidDataCoveragePredicate threshold array = Inr True)
        \<and> (threshold + 1 / 2 ^ 52 \<le> 1 - ?q
             \<longrightarrow> ValidDataCoveragePredicate threshold array = Inr False)"
      using c p bound below above by blast
  qed
  have stack: "0 < frame_height stack * frame_width stack * frame_channels stack \<longrightarrow>
        remove_cloudy_scenes threshold stack
          = Inr (stack\<lparr>frames :=
                   filter (\<lambda>f. round_double
                                  (1 - round_double (real (count_nonzero (frame_of stack f))
                                                      / real (np_size (frame_of stack f))))
                                < threshold)
                     (frames stack)\<rparr>)"
  proof
    assume pos: "0 < frame_height stack * frame_width stack * frame_channels stack"
    let ?p = "\<lambda>f. ValidDataCoveragePredicate threshold (frame_of stack f)"
    have size: "np_size (frame_of stack f)
                  = frame_height stack * frame_width stack * frame_channels stack" for f
      by (simp add: np_size_def frame_of_def)
    have val: "?p f = Inr (round_double
                             (1 - round_double (real (count_nonzero (frame_of stack f))
                                                 / real (np_size (frame_of stack f))))
                           < threshold)" for f
      using pos by (intro predicate_value) (simp add: size)
    have "filter_frames ?p (frames stack) = Inr (filter (\<lambda>f. ?p f = Inr True) (frames stack))"
      by (rule filter_frames_total) (simp add: val)
    then show "remove_cloudy_scenes threshold stack
          = Inr (stack\<lparr>frames :=
                   filter (\<lambda>f. round_double
                                  (1 - round_double (real (count_nonzero (frame_of stack f))
                                                      / real (np_size (frame_of stack f))))
                                < threshold)
                     (frames stack)\<rparr>)"
      by (simp add: remove_cloudy_scenes_def val)
  qed
  from iff frame stack show ?thesis by blast
qed

lemma nine_of_ten_counts: "count_nonzero nine_of_ten = 9" "np_size nine_of_ten = 10"
  by (simp_all add: nine_of_ten_def count_nonzero_def np_size_def ravel_def indices3_def upt10)

lemma one_of_five_counts: "count_nonzero one_of_five = 1" "np_size one_of_five = 5"
  by (simp_all add: one_of_five_def count_nonzero_def np_size_def ravel_def indices3_def upt5)

theorem coverage_filter_keeps_iff_below_threshold_witness:
  "0 < np_size nine_of_ten
   \<and> count_nonzero nine_of_ten = 9 \<and> np_size nine_of_ten = 10
   \<and> ValidDataCoveragePredicate (round_double (1 / 10)) nine_of_ten = Inr True
   \<and> 0 < np_size one_of_five
   \<and> count_nonzero one_of_five = 1 \<and> np_size one_of_five = 5
   \<and> ValidDataCoveragePredicate (round_double (8 / 10)) one_of_five = Inr False
   \<and> 0 < frame_height example_valid_data * frame_width example_valid_data
           * frame_channels example_valid_data
   \<and> (\<exists>kept. remove_cloudy_scenes cloud_coverage_threshold example_valid_data = Inr kept
         \<and> length (frames kept) = 1)"
proof -
  have a: "round_double (1 - round_double (9 / 10)) < round_double (1 / 10)"
    by (simp add: round_double_eval)
  have b: "\<not> round_double (1 - round_double (1 / 5)) < round_double (8 / 10)"
    by (simp add: round_double_eval)
  have c: "0 < frame_height example_valid_data * frame_width example_valid_data
               * frame_channels example_valid_data"
    by (simp add: example_valid_data_def)
  have d: "length (filter (\<lambda>f. round_double
                                  (1 - round_double (real (count_nonzero (frame_of example_valid_data f))
                                                      / real (np_size (frame_of example_valid_data f))))
                                < cloud_coverage_threshold)
                     (frames example_valid_data)) = 1"
    by (simp add: example_valid_data_def frame_of_def np_size_def count_nonzero_def ravel_def
        indices3_def upt2 cloud_coverage_threshold_def round_double_eval)
  from coverage_filter_keeps_iff_below_threshold
         [of "round_double (1 / 10)" nine_of_ten example_valid_data]
  have "ValidDataCoveragePredicate (round_double (1 / 10)) nine_of_ten = Inr True"
    using a by (simp add: nine_of_ten_counts)
  moreover from coverage_filter_keeps_iff_below_threshold
         [of "round_double (8 / 10)" one_of_five example_valid_data]
  have "ValidDataCoveragePredicate (round_double (8 / 10)) one_of_five = Inr False"
    using b by (simp add: one_of_five_counts)
  moreover from coverage_filter_keeps_iff_below_threshold
         [of cloud_coverage_threshold nine_of_ten example_valid_data] c
  have "\<exists>kept. remove_cloudy_scenes cloud_coverage_threshold example_valid_data = Inr kept
         \<and> length (frames kept) = 1"
    using d by simp
  ultimately show ?thesis
    using c by (simp add: nine_of_ten_counts one_of_five_counts)
qed

text \<open>
  C7. The coverage filter is idempotent: a stack that the filter returned is returned
  unchanged when it is filtered again with the same threshold. The filter returns for
  every stack whose frames have at least one cell, and for the empty stack.
\<close>

theorem coverage_filter_idempotent:
  "(remove_cloudy_scenes threshold stack = Inr filtered
      \<longrightarrow> remove_cloudy_scenes threshold filtered = Inr filtered)
   \<and> (0 < frame_height stack * frame_width stack * frame_channels stack \<or> frames stack = []
      \<longrightarrow> (\<exists>filtered. remove_cloudy_scenes threshold stack = Inr filtered))"
proof (intro conjI impI)
  assume a: "remove_cloudy_scenes threshold stack = Inr filtered"
  let ?p = "\<lambda>f. ValidDataCoveragePredicate threshold (frame_of stack f)"
  from a obtain kept where k: "filter_frames ?p (frames stack) = Inr kept"
    and f: "filtered = stack\<lparr>frames := kept\<rparr>"
    by (auto simp: remove_cloudy_scenes_def split: sum.splits)
  have "frame_of filtered = frame_of stack"
    by (simp add: f frame_of_def fun_eq_iff)
  moreover have "filter_frames ?p kept = Inr kept"
    using k by (rule filter_frames_idem)
  ultimately show "remove_cloudy_scenes threshold filtered = Inr filtered"
    by (simp add: remove_cloudy_scenes_def f)
next
  assume "0 < frame_height stack * frame_width stack * frame_channels stack \<or> frames stack = []"
  then show "\<exists>filtered. remove_cloudy_scenes threshold stack = Inr filtered"
  proof
    assume "0 < frame_height stack * frame_width stack * frame_channels stack"
    then have "0 < np_size (frame_of stack f)" for f
      by (simp add: np_size_def frame_of_def)
    then have "filter_frames (\<lambda>f. ValidDataCoveragePredicate threshold (frame_of stack f)) (frames stack)
       = Inr (filter (\<lambda>f. ValidDataCoveragePredicate threshold (frame_of stack f) = Inr True) (frames stack))"
      by (intro filter_frames_total) (simp add: predicate_value)
    then show ?thesis by (simp add: remove_cloudy_scenes_def)
  next
    assume "frames stack = []"
    then show ?thesis by (simp add: remove_cloudy_scenes_def)
  qed
qed

theorem coverage_filter_idempotent_witness:
  "remove_cloudy_scenes (1 / 20) example_valid_data = Inr (example_valid_data\<lparr>frames := [\<lambda>i j k. True]\<rparr>)
   \<and> remove_cloudy_scenes (1 / 20) (example_valid_data\<lparr>frames := [\<lambda>i j k. True]\<rparr>)
       = Inr (example_valid_data\<lparr>frames := [\<lambda>i j k. True]\<rparr>)
   \<and> 0 < frame_height example_valid_data * frame_width example_valid_data
           * frame_channels example_valid_data"
proof -
  have r: "remove_cloudy_scenes (1 / 20) example_valid_data
             = Inr (example_valid_data\<lparr>frames := [\<lambda>i j k. True]\<rparr>)"
    by (simp add: remove_cloudy_scenes_def ValidDataCoveragePredicate_def calculate_coverage_def
        example_valid_data_def frame_of_def np_size_def count_nonzero_def ravel_def
        indices3_def upt2 round_double_eval)
  show ?thesis
    using r coverage_filter_idempotent
      [of "1 / 20" example_valid_data "example_valid_data\<lparr>frames := [\<lambda>i j k. True]\<rparr>"]
    by (simp add: example_valid_data_def)
qed

section \<open>Properties of the water detector\<close>

lemma fst_detect_water:
  "fst (detect_water equal_nan threshold_otsu a)
     = (if 1 < len_unique equal_nan (ravel2 a) then replace_nan a else a)"
  by (simp add: detect_water_def Let_def split: sum.splits)

lemma snd_detect_water_shape:
  "snd (detect_water equal_nan threshold_otsu a) = Inr m \<Longrightarrow> rows m = rows a \<and> cols m = cols a"
  by (auto simp: detect_water_def Let_def greater_than_def replace_nan_def
      split: sum.splits if_splits)

lemma detect_water_returns:
  "(1 < len_unique equal_nan (ravel2 a) \<longrightarrow> \<not> isl (threshold_otsu (replace_nan a)))
     \<Longrightarrow> \<exists>m. snd (detect_water equal_nan threshold_otsu a) = Inr m"
  by (auto simp: detect_water_def Let_def split: sum.splits)

lemma detect_frames_length:
  "length (fst (detect_frames equal_nan threshold_otsu h w c fs)) = length fs"
proof (induction fs)
  case Nil
  then show ?case by simp
next
  case (Cons f fs)
  obtain v r where dw: "detect_water equal_nan threshold_otsu (view0 h w f) = (v, r)"
    by (cases "detect_water equal_nan threshold_otsu (view0 h w f)")
  obtain fs' r' where df: "detect_frames equal_nan threshold_otsu h w c fs = (fs', r')"
    by (cases "detect_frames equal_nan threshold_otsu h w c fs")
  from Cons show ?case
    by (cases r) (simp_all add: dw df Let_def)
qed

lemma detect_frames_touched:
  "list_all2
     (\<lambda>f f'. f' = f \<or>
        f' = write_view0 (fst (detect_water equal_nan threshold_otsu (view0 h w f))) f)
     fs (fst (detect_frames equal_nan threshold_otsu h w c fs))"
proof (induction fs)
  case Nil
  then show ?case by simp
next
  case (Cons f fs)
  obtain v r where dw: "detect_water equal_nan threshold_otsu (view0 h w f) = (v, r)"
    by (cases "detect_water equal_nan threshold_otsu (view0 h w f)")
  obtain fs' r' where df: "detect_frames equal_nan threshold_otsu h w c fs = (fs', r')"
    by (cases "detect_frames equal_nan threshold_otsu h w c fs")
  from Cons show ?case
    by (cases r) (simp_all add: dw df Let_def list.rel_refl)
qed

lemma detect_frames_result:
  "snd (detect_frames equal_nan threshold_otsu h w c fs) = Inr ms \<Longrightarrow>
     list_all2 (\<lambda>f m. snd (detect_water equal_nan threshold_otsu (view0 h w f)) = Inr m) fs ms
     \<and> fst (detect_frames equal_nan threshold_otsu h w c fs)
         = map (\<lambda>f. write_view0 (fst (detect_water equal_nan threshold_otsu (view0 h w f))) f) fs"
proof (induction fs arbitrary: ms)
  case Nil
  then show ?case by simp
next
  case (Cons f fs)
  obtain v r where dw: "detect_water equal_nan threshold_otsu (view0 h w f) = (v, r)"
    by (cases "detect_water equal_nan threshold_otsu (view0 h w f)")
  obtain fs' r' where df: "detect_frames equal_nan threshold_otsu h w c fs = (fs', r')"
    by (cases "detect_frames equal_nan threshold_otsu h w c fs")
  from Cons.prems obtain m ms' where r: "r = Inr m" and r': "r' = Inr ms'" and ms: "ms = m # ms'"
    by (cases r; cases r') (auto simp: dw df Let_def split: if_splits)
  from Cons.IH [of ms'] show ?case
    using Cons.prems by (simp add: dw df r r' ms Let_def split: if_splits)
qed

lemma detect_frames_returns:
  "0 < c \<Longrightarrow>
   list_all2 (\<lambda>f m. snd (detect_water equal_nan threshold_otsu (view0 h w f)) = Inr m) fs ms \<Longrightarrow>
     snd (detect_frames equal_nan threshold_otsu h w c fs) = Inr ms"
proof (induction fs arbitrary: ms)
  case Nil
  then show ?case by simp
next
  case (Cons f fs)
  then obtain m ms' where ms: "ms = m # ms'"
    and m: "snd (detect_water equal_nan threshold_otsu (view0 h w f)) = Inr m"
    and rest: "list_all2 (\<lambda>f m. snd (detect_water equal_nan threshold_otsu (view0 h w f)) = Inr m) fs ms'"
    by (auto simp: list_all2_Cons1)
  obtain v where dw: "detect_water equal_nan threshold_otsu (view0 h w f) = (v, Inr m)"
    using m by (cases "detect_water equal_nan threshold_otsu (view0 h w f)") simp
  obtain fs' where df: "detect_frames equal_nan threshold_otsu h w c fs = (fs', Inr ms')"
    using Cons.IH [OF Cons.prems(1) rest]
    by (cases "detect_frames equal_nan threshold_otsu h w c fs") simp
  show ?case
    using Cons.prems(1) by (simp add: dw df ms Let_def)
qed

lemma list_all2_choice:
  "(\<forall>x \<in> set xs. \<exists>y. P x y) \<Longrightarrow> \<exists>ys. list_all2 P xs ys"
proof (induction xs)
  case Nil
  then show ?case by simp
next
  case (Cons x xs)
  then obtain y ys where "P x y" "list_all2 P xs ys" by auto
  then have "list_all2 P (x # xs) (y # ys)" by simp
  then show ?case by blast
qed

lemma set_indices3: "set (indices3 h w c) = {(i, j, k). i < h \<and> j < w \<and> k < c}"
  by (auto simp: indices3_def image_iff)

lemma ravel2_indices3:
  "ravel2 m = map (\<lambda>(i, j, k). px m i j) (indices3 (rows m) (cols m) 1)"
  by (simp add: ravel2_def indices3_def map_concat comp_def)

lemma length_filter_mono:
  "(\<forall>x \<in> set xs. P x \<longrightarrow> Q x) \<Longrightarrow> length (filter P xs) \<le> length (filter Q xs)"
  by (induction xs) auto


lemma execute_returns:
  assumes c: "0 < frame_channels (NDWI eopatch)"
    and ne: "frames (NDWI eopatch) \<noteq> []"
    and ms: "list_all2
               (\<lambda>f m. snd (detect_water equal_nan threshold_otsu
                              (view0 (frame_height (NDWI eopatch)) (frame_width (NDWI eopatch)) f))
                         = Inr m)
               (frames (NDWI eopatch)) ms"
    and wm: "mask_by_nominal (frame_height (NDWI eopatch)) (frame_width (NDWI eopatch)) ms
               (NOMINAL_WATER eopatch) = Inr water_masks"
    and nz: "0 < count_nonzero_uint8 (NOMINAL_WATER eopatch)"
  shows "execute equal_nan threshold_otsu eopatch
           = (eopatch\<lparr>NDWI := (NDWI eopatch)\<lparr>frames :=
                  fst (detect_frames equal_nan threshold_otsu (frame_height (NDWI eopatch))
                         (frame_width (NDWI eopatch)) (frame_channels (NDWI eopatch))
                         (frames (NDWI eopatch)))\<rparr>,
                WATER_MASK := Some water_masks,
                WATER_LEVEL := Some
                  (map (\<lambda>mask. real (count_nonzero_uint8 (frame_of water_masks mask))
                                / real (count_nonzero_uint8 (NOMINAL_WATER eopatch)))
                     (frames water_masks))\<rparr>,
              None)"
proof -
  let ?d = "detect_frames equal_nan threshold_otsu (frame_height (NDWI eopatch))
              (frame_width (NDWI eopatch)) (frame_channels (NDWI eopatch)) (frames (NDWI eopatch))"
  have "snd ?d = Inr ms"
    using c ms by (rule detect_frames_returns)
  then have d: "?d = (fst ?d, Inr ms)"
    by (metis prod.collapse)
  from ms ne obtain m ms' where cons: "ms = m # ms'"
    by (cases ms) auto
  show ?thesis
    unfolding execute_def Let_def
    by (subst d) (use wm nz in \<open>simp add: cons\<close>)
qed

lemma count_nonzero_uint8_frame:
  "count_nonzero_uint8 \<lparr>height = h, width = w, channels = c, cell = f\<rparr>
     = length (filter (\<lambda>(i, j, k). f i j k \<noteq> 0) (indices3 h w c))"
  by (simp add: count_nonzero_uint8_def ravel_def comp_def case_prod_unfold)

lemma count_nonzero_uint8_indices:
  "count_nonzero_uint8 a
     = length (filter (\<lambda>(i, j, k). cell a i j k \<noteq> 0) (indices3 (height a) (width a) (channels a)))"
  by (simp add: count_nonzero_uint8_def ravel_def comp_def case_prod_unfold)

lemma filter_indices3_cong:
  "(\<And>i j k. i < h \<Longrightarrow> j < w \<Longrightarrow> k < c \<Longrightarrow> P i j k = Q i j k) \<Longrightarrow>
     filter (\<lambda>(i, j, k). P i j k) (indices3 h w c) = filter (\<lambda>(i, j, k). Q i j k) (indices3 h w c)"
  by (rule filter_cong) (auto simp: set_indices3)



lemma masked_frame_count:
  "count_nonzero_uint8
     (frame_of \<lparr>frame_height = fh, frame_width = fw, frame_channels = c, frames = fs\<rparr>
        (\<lambda>i j k. of_bool (P i j) * Q i j k))
     = length (filter (\<lambda>(i, j, k). P i j \<and> Q i j k \<noteq> 0) (indices3 fh fw c))"
proof -
  have "filter (\<lambda>(i, j, k). of_bool (P i j) * Q i j k \<noteq> (0::uint8)) (indices3 fh fw c)
      = filter (\<lambda>(i, j, k). P i j \<and> Q i j k \<noteq> 0) (indices3 fh fw c)"
    by (rule filter_indices3_cong) simp
  then show ?thesis
    by (simp only: frame_of_def array4.simps count_nonzero_uint8_frame)
qed

lemma same_shape_count:
  "length (filter (\<lambda>(i, j, k). px m (bc_index h i) (bc_index w j)
                               \<and> cell nominal (bc_index h i) (bc_index w j) k \<noteq> (0::uint8))
             (indices3 (broadcast_dim h h) (broadcast_dim w w) c))
     = length (filter (\<lambda>(i, j, k). px m i j \<and> cell nominal i j k \<noteq> 0) (indices3 h w c))"
proof -
  have "filter (\<lambda>(i, j, k). px m (bc_index h i) (bc_index w j)
                               \<and> cell nominal (bc_index h i) (bc_index w j) k \<noteq> 0)
             (indices3 h w c)
      = filter (\<lambda>(i, j, k). px m i j \<and> cell nominal i j k \<noteq> 0) (indices3 h w c)"
    by (rule filter_indices3_cong) (simp add: bc_index_in_bounds)
  then show ?thesis
    by (simp only: broadcast_dim_same)
qed

text \<open>
  What \<open>execute\<close> returns on a patch whose grids combine: the product of the water masks
  with the nominal extent, and for each frame of the product its count of non-zero cells
  divided by the count of the nominal extent.
\<close>

lemma execute_compatible:
  assumes ch: "compatible (frame_height (NDWI eopatch)) (height (NOMINAL_WATER eopatch))"
    and cw: "compatible (frame_width (NDWI eopatch)) (width (NOMINAL_WATER eopatch))"
    and c: "0 < frame_channels (NDWI eopatch)"
    and ne: "frames (NDWI eopatch) \<noteq> []"
    and otsu: "\<forall>f \<in> set (frames (NDWI eopatch)).
        1 < len_unique equal_nan
              (ravel2 (view0 (frame_height (NDWI eopatch)) (frame_width (NDWI eopatch)) f))
        \<longrightarrow> \<not> isl (threshold_otsu
              (replace_nan (view0 (frame_height (NDWI eopatch)) (frame_width (NDWI eopatch)) f)))"
    and nz: "0 < count_nonzero_uint8 (NOMINAL_WATER eopatch)"
  shows "\<exists>eopatch' ms.
           execute equal_nan threshold_otsu eopatch = (eopatch', None)
         \<and> list_all2
              (\<lambda>f m. snd (detect_water equal_nan threshold_otsu
                             (view0 (frame_height (NDWI eopatch)) (frame_width (NDWI eopatch)) f))
                        = Inr m)
              (frames (NDWI eopatch)) ms
         \<and> WATER_MASK eopatch'
             = Some \<lparr>frame_height = broadcast_dim (frame_height (NDWI eopatch))
                                      (height (NOMINAL_WATER eopatch)),
                     frame_width = broadcast_dim (frame_width (NDWI eopatch))
                                     (width (NOMINAL_WATER eopatch)),
                     frame_channels = channels (NOMINAL_WATER eopatch),
                     frames = map (\<lambda>m. \<lambda>i j k.
                         of_bool (px m (bc_index (frame_height (NDWI eopatch)) i)
                                       (bc_index (frame_width (NDWI eopatch)) j))
                         * cell (NOMINAL_WATER eopatch)
                             (bc_index (height (NOMINAL_WATER eopatch)) i)
                             (bc_index (width (NOMINAL_WATER eopatch)) j) k) ms\<rparr>
         \<and> WATER_LEVEL eopatch'
             = Some (map (\<lambda>m.
                  real (length (filter
                     (\<lambda>(i, j, k). px m (bc_index (frame_height (NDWI eopatch)) i)
                                       (bc_index (frame_width (NDWI eopatch)) j)
                                  \<and> cell (NOMINAL_WATER eopatch)
                                      (bc_index (height (NOMINAL_WATER eopatch)) i)
                                      (bc_index (width (NOMINAL_WATER eopatch)) j) k \<noteq> 0)
                     (indices3
                        (broadcast_dim (frame_height (NDWI eopatch)) (height (NOMINAL_WATER eopatch)))
                        (broadcast_dim (frame_width (NDWI eopatch)) (width (NOMINAL_WATER eopatch)))
                        (channels (NOMINAL_WATER eopatch)))))
                  / real (count_nonzero_uint8 (NOMINAL_WATER eopatch))) ms)"
proof -
  let ?h = "frame_height (NDWI eopatch)" and ?w = "frame_width (NDWI eopatch)"
  let ?nominal = "NOMINAL_WATER eopatch"
  let ?H = "height ?nominal" and ?W = "width ?nominal"
  have "\<forall>f \<in> set (frames (NDWI eopatch)).
          \<exists>m. snd (detect_water equal_nan threshold_otsu (view0 ?h ?w f)) = Inr m"
    using otsu by (auto intro!: detect_water_returns)
  from list_all2_choice [OF this] obtain ms where ms: "list_all2
      (\<lambda>f m. snd (detect_water equal_nan threshold_otsu (view0 ?h ?w f)) = Inr m)
      (frames (NDWI eopatch)) ms" ..
  let ?wm = "\<lparr>frame_height = broadcast_dim ?h ?H, frame_width = broadcast_dim ?w ?W,
      frame_channels = channels ?nominal,
      frames = map (\<lambda>m. \<lambda>i j k. of_bool (px m (bc_index ?h i) (bc_index ?w j))
                          * cell ?nominal (bc_index ?H i) (bc_index ?W j) k) ms\<rparr>"
  have wm: "mask_by_nominal ?h ?w ms ?nominal = Inr ?wm"
    using ch cw by (simp add: mask_by_nominal_def)
  have ex: "execute equal_nan threshold_otsu eopatch
           = (eopatch\<lparr>NDWI := (NDWI eopatch)\<lparr>frames :=
                  fst (detect_frames equal_nan threshold_otsu ?h ?w (frame_channels (NDWI eopatch))
                         (frames (NDWI eopatch)))\<rparr>,
                WATER_MASK := Some ?wm,
                WATER_LEVEL := Some
                  (map (\<lambda>mask. real (count_nonzero_uint8 (frame_of ?wm mask))
                                / real (count_nonzero_uint8 ?nominal))
                     (frames ?wm))\<rparr>,
              None)"
    using c ne ms wm nz by (rule execute_returns)
  have lv: "map (\<lambda>mask. real (count_nonzero_uint8 (frame_of ?wm mask))
                                / real (count_nonzero_uint8 ?nominal)) (frames ?wm)
      = map (\<lambda>m. real (length (filter
                     (\<lambda>(i, j, k). px m (bc_index ?h i) (bc_index ?w j)
                                  \<and> cell ?nominal (bc_index ?H i) (bc_index ?W j) k \<noteq> 0)
                     (indices3 (broadcast_dim ?h ?H) (broadcast_dim ?w ?W) (channels ?nominal))))
                  / real (count_nonzero_uint8 ?nominal)) ms"
    by (simp only: array4.simps list.map_comp comp_def masked_frame_count)
  show ?thesis
    apply (rule exI, rule exI [of _ ms])
    apply (intro conjI)
       apply (rule ex)
      apply (rule ms)
     apply simp
    apply (simp only: lv)
    apply simp
    done
qed

lemma all_nonzero_count:
  assumes "channels nominal = 1"
    and "\<forall>i < height nominal. \<forall>j < width nominal. cell nominal i j 0 \<noteq> 0"
  shows "count_nonzero_uint8 nominal = height nominal * width nominal"
proof -
  have "filter (\<lambda>(i, j, k). cell nominal i j k \<noteq> 0) (indices3 (height nominal) (width nominal) 1)
      = filter (\<lambda>(i, j, k). True) (indices3 (height nominal) (width nominal) 1)"
    by (rule filter_indices3_cong) (use assms in simp)
  then show ?thesis
    by (simp add: count_nonzero_uint8_indices assms(1) length_indices3 case_prod_unfold)
qed

lemma water_count_single_channel:
  assumes "rows water = h" and "cols water = w"
    and "\<forall>i < h. \<forall>j < w. cell nominal i j 0 \<noteq> (0::uint8)"
  shows "length (filter (\<lambda>(i, j, k). px water i j \<and> cell nominal i j k \<noteq> 0) (indices3 h w 1))
           = length (filter (\<lambda>b. b) (ravel2 water))"
proof -
  have "filter (\<lambda>(i, j, k). px water i j \<and> cell nominal i j k \<noteq> 0) (indices3 h w 1)
      = filter (\<lambda>(i, j, k). px water i j) (indices3 h w 1)"
    by (rule filter_indices3_cong) (use assms(3) in simp)
  then show ?thesis
    by (simp add: ravel2_indices3 assms(1,2) comp_def case_prod_unfold)
qed

text \<open>
  C3. Let the height and the width of the frames combine with those of the nominal
  extent, let the extent have at least one non-zero pixel, let the NDWI stack have a
  channel, and let the threshold function return on the frames it is called on. Then the
  task returns, and for every frame: the water mask has the nominal extent's value where
  the detector found water and 0 elsewhere (so it is 0 outside the extent and boolean
  for a boolean extent), and the water level is the number of non-zero pixels of that
  mask divided by the number of non-zero pixels of the extent. When the extent has the
  height and width of the frames, this is the number of pixels that are water and inside
  the extent divided by the number of pixels of the extent; for a single-channel extent
  that covers the whole h x w grid it is the number of water pixels divided by h * w
  (N * N on an N x N grid).
\<close>

theorem water_level_is_ratio_within_nominal:
  assumes ch: "compatible (frame_height (NDWI eopatch)) (height (NOMINAL_WATER eopatch))"
    and cw: "compatible (frame_width (NDWI eopatch)) (width (NOMINAL_WATER eopatch))"
    and c: "0 < frame_channels (NDWI eopatch)"
    and otsu: "\<forall>f \<in> set (frames (NDWI eopatch)).
        1 < len_unique equal_nan
              (ravel2 (view0 (frame_height (NDWI eopatch)) (frame_width (NDWI eopatch)) f))
        \<longrightarrow> \<not> isl (threshold_otsu
              (replace_nan (view0 (frame_height (NDWI eopatch)) (frame_width (NDWI eopatch)) f)))"
    and nz: "0 < count_nonzero_uint8 (NOMINAL_WATER eopatch)"
    and t: "t < length (frames (NDWI eopatch))"
  shows "\<exists>eopatch' water_masks water_levels water.
           execute equal_nan threshold_otsu eopatch = (eopatch', None)
         \<and> WATER_MASK eopatch' = Some water_masks
         \<and> WATER_LEVEL eopatch' = Some water_levels
         \<and> length (frames water_masks) = length (frames (NDWI eopatch))
         \<and> length water_levels = length (frames (NDWI eopatch))
         \<and> frame_height water_masks
             = broadcast_dim (frame_height (NDWI eopatch)) (height (NOMINAL_WATER eopatch))
         \<and> frame_width water_masks
             = broadcast_dim (frame_width (NDWI eopatch)) (width (NOMINAL_WATER eopatch))
         \<and> frame_channels water_masks = channels (NOMINAL_WATER eopatch)
         \<and> snd (detect_water equal_nan threshold_otsu
                  (view0 (frame_height (NDWI eopatch)) (frame_width (NDWI eopatch))
                     (frames (NDWI eopatch) ! t))) = Inr water
         \<and> (\<forall>i j k.
               (frames water_masks ! t) i j k
                 = (if px water (bc_index (frame_height (NDWI eopatch)) i)
                                (bc_index (frame_width (NDWI eopatch)) j)
                    then cell (NOMINAL_WATER eopatch)
                           (bc_index (height (NOMINAL_WATER eopatch)) i)
                           (bc_index (width (NOMINAL_WATER eopatch)) j) k
                    else 0))
         \<and> water_levels ! t
             = real (count_nonzero_uint8 (frame_of water_masks (frames water_masks ! t)))
               / real (count_nonzero_uint8 (NOMINAL_WATER eopatch))
         \<and> (height (NOMINAL_WATER eopatch) = frame_height (NDWI eopatch)
              \<and> width (NOMINAL_WATER eopatch) = frame_width (NDWI eopatch)
              \<longrightarrow> (\<forall>i < frame_height (NDWI eopatch). \<forall>j < frame_width (NDWI eopatch).
                     \<forall>k. (frames water_masks ! t) i j k
                            = (if px water i j then cell (NOMINAL_WATER eopatch) i j k else 0))
                  \<and> water_levels ! t
                      = real (length (filter
                          (\<lambda>(i, j, k). px water i j \<and> cell (NOMINAL_WATER eopatch) i j k \<noteq> 0)
                          (indices3 (frame_height (NDWI eopatch)) (frame_width (NDWI eopatch))
                             (channels (NOMINAL_WATER eopatch)))))
                        / real (count_nonzero_uint8 (NOMINAL_WATER eopatch)))
         \<and> (height (NOMINAL_WATER eopatch) = frame_height (NDWI eopatch)
              \<and> width (NOMINAL_WATER eopatch) = frame_width (NDWI eopatch)
              \<and> channels (NOMINAL_WATER eopatch) = 1
              \<and> (\<forall>i < frame_height (NDWI eopatch). \<forall>j < frame_width (NDWI eopatch).
                    cell (NOMINAL_WATER eopatch) i j 0 \<noteq> 0)
              \<longrightarrow> water_levels ! t
                    = real (length (filter (\<lambda>b. b) (ravel2 water)))
                      / real (frame_height (NDWI eopatch) * frame_width (NDWI eopatch)))"
proof -
  let ?h = "frame_height (NDWI eopatch)" and ?w = "frame_width (NDWI eopatch)"
  let ?nominal = "NOMINAL_WATER eopatch"
  let ?H = "height ?nominal" and ?W = "width ?nominal" and ?C = "channels ?nominal"
  let ?bcount = "\<lambda>m. length (filter
                     (\<lambda>(i, j, k). px m (bc_index ?h i) (bc_index ?w j)
                                  \<and> cell ?nominal (bc_index ?H i) (bc_index ?W j) k \<noteq> 0)
                     (indices3 (broadcast_dim ?h ?H) (broadcast_dim ?w ?W) ?C))"
  let ?count = "\<lambda>m. length (filter (\<lambda>(i, j, k). px m i j \<and> cell ?nominal i j k \<noteq> 0)
                     (indices3 ?h ?w ?C))"
  let ?masked = "\<lambda>m. \<lambda>i j k. of_bool (px m (bc_index ?h i) (bc_index ?w j))
                          * cell ?nominal (bc_index ?H i) (bc_index ?W j) k"
  from t have ne: "frames (NDWI eopatch) \<noteq> []" by auto
  from execute_compatible [OF ch cw c ne otsu nz] obtain eopatch' ms
    where ex: "execute equal_nan threshold_otsu eopatch = (eopatch', None)"
      and ms: "list_all2
          (\<lambda>f m. snd (detect_water equal_nan threshold_otsu (view0 ?h ?w f)) = Inr m)
          (frames (NDWI eopatch)) ms"
      and wm: "WATER_MASK eopatch'
          = Some \<lparr>frame_height = broadcast_dim ?h ?H, frame_width = broadcast_dim ?w ?W,
                  frame_channels = ?C, frames = map ?masked ms\<rparr>"
      and wl: "WATER_LEVEL eopatch'
          = Some (map (\<lambda>m. real (?bcount m) / real (count_nonzero_uint8 ?nominal)) ms)"
    by blast
  let ?wm = "\<lparr>frame_height = broadcast_dim ?h ?H, frame_width = broadcast_dim ?w ?W,
               frame_channels = ?C, frames = map ?masked ms\<rparr>"
  let ?lv = "map (\<lambda>m. real (?bcount m) / real (count_nonzero_uint8 ?nominal)) ms"
  have len: "length ms = length (frames (NDWI eopatch))"
    using ms by (simp add: list_all2_lengthD)
  have water: "snd (detect_water equal_nan threshold_otsu
                  (view0 ?h ?w (frames (NDWI eopatch) ! t))) = Inr (ms ! t)"
    using ms t by (rule list_all2_nthD)
  then have shape: "rows (ms ! t) = ?h" "cols (ms ! t) = ?w"
    by (auto dest!: snd_detect_water_shape simp: view0_def)
  have nth: "frames ?wm ! t = ?masked (ms ! t)"
    using t len by simp
  have cells: "\<forall>i j k. (frames ?wm ! t) i j k
      = (if px (ms ! t) (bc_index ?h i) (bc_index ?w j)
         then cell ?nominal (bc_index ?H i) (bc_index ?W j) k else 0)"
    unfolding nth by simp
  have level_b: "?lv ! t = real (?bcount (ms ! t)) / real (count_nonzero_uint8 ?nominal)"
    using t len by simp
  have "count_nonzero_uint8 (frame_of ?wm (?masked (ms ! t))) = ?bcount (ms ! t)"
    by (rule masked_frame_count)
  then have level: "?lv ! t = real (count_nonzero_uint8 (frame_of ?wm (frames ?wm ! t)))
                        / real (count_nonzero_uint8 ?nominal)"
    unfolding nth level_b by simp
  have same: "?H = ?h \<and> ?W = ?w
      \<longrightarrow> (\<forall>i < ?h. \<forall>j < ?w. \<forall>k. (frames ?wm ! t) i j k
                  = (if px (ms ! t) i j then cell ?nominal i j k else 0))
          \<and> ?lv ! t = real (?count (ms ! t)) / real (count_nonzero_uint8 ?nominal)"
  proof (intro impI conjI)
    assume a: "?H = ?h \<and> ?W = ?w"
    show "\<forall>i < ?h. \<forall>j < ?w. \<forall>k. (frames ?wm ! t) i j k
                  = (if px (ms ! t) i j then cell ?nominal i j k else 0)"
      unfolding nth using a by (simp add: bc_index_in_bounds)
    have "?bcount (ms ! t) = ?count (ms ! t)"
      using same_shape_count [of "ms ! t" ?h ?w ?nominal ?C] a by simp
    then show "?lv ! t = real (?count (ms ! t)) / real (count_nonzero_uint8 ?nominal)"
      unfolding level_b by simp
  qed
  have full: "?H = ?h \<and> ?W = ?w \<and> ?C = 1 \<and> (\<forall>i < ?h. \<forall>j < ?w. cell ?nominal i j 0 \<noteq> 0)
      \<longrightarrow> ?lv ! t = real (length (filter (\<lambda>b. b) (ravel2 (ms ! t)))) / real (?h * ?w)"
  proof
    assume a: "?H = ?h \<and> ?W = ?w \<and> ?C = 1 \<and> (\<forall>i < ?h. \<forall>j < ?w. cell ?nominal i j 0 \<noteq> 0)"
    then have n: "count_nonzero_uint8 ?nominal = ?h * ?w"
      using all_nonzero_count [of ?nominal] by simp
    have "?count (ms ! t) = length (filter (\<lambda>b. b) (ravel2 (ms ! t)))"
      using water_count_single_channel [OF shape, of ?nominal] a by simp
    moreover have "?lv ! t = real (?count (ms ! t)) / real (count_nonzero_uint8 ?nominal)"
      using same a by blast
    ultimately show "?lv ! t = real (length (filter (\<lambda>b. b) (ravel2 (ms ! t)))) / real (?h * ?w)"
      by (simp only: n)
  qed
  show ?thesis
    apply (rule exI [of _ eopatch'])
    apply (rule exI [of _ ?wm])
    apply (rule exI [of _ ?lv])
    apply (rule exI [of _ "ms ! t"])
    apply (intro conjI)
                apply (rule ex)
               apply (rule wm)
              apply (rule wl)
             apply (simp add: len)
            apply (simp add: len)
           apply simp
          apply simp
         apply simp
        apply (rule water)
       apply (rule cells)
      apply (rule level)
     apply (rule same)
    apply (rule full)
    done
qed

lemmas eval_defs =
  execute_def detect_water_def len_unique_def ravel2_def view0_def write_view0_def
  replace_nan_def isnan_def midrange_otsu_def greater_than_def mask_by_nominal_def
  compatible_def broadcast_dim_def bc_index_def count_nonzero_uint8_def ravel_def
  indices3_def frame_of_def upt2

lemma example_patch_hyps:
  "height (NOMINAL_WATER example_patch) = frame_height (NDWI example_patch)"
  "width (NOMINAL_WATER example_patch) = frame_width (NDWI example_patch)"
  "0 < frame_channels (NDWI example_patch)"
  "\<forall>f \<in> set (frames (NDWI example_patch)).
        1 < len_unique True
              (ravel2 (view0 (frame_height (NDWI example_patch)) (frame_width (NDWI example_patch)) f))
        \<longrightarrow> \<not> isl (midrange_otsu
              (replace_nan (view0 (frame_height (NDWI example_patch)) (frame_width (NDWI example_patch)) f)))"
  "0 < count_nonzero_uint8 (NOMINAL_WATER example_patch)"
  "0 < length (frames (NDWI example_patch))"
  by (simp_all add: example_patch_def eval_defs)

lemma example_patch_compatible:
  "compatible (frame_height (NDWI example_patch)) (height (NOMINAL_WATER example_patch))"
  "compatible (frame_width (NDWI example_patch)) (width (NOMINAL_WATER example_patch))"
  by (simp_all add: example_patch_def compatible_def)

lemma example_patch_otsu:
  "midrange_otsu (replace_nan (view0 (frame_height (NDWI example_patch))
       (frame_width (NDWI example_patch)) (frames (NDWI example_patch) ! 0)))
     = Inr (Fin (- (1 / 10)))"
  by (simp add: example_patch_def eval_defs)

lemma example_patch_levels:
  "WATER_LEVEL (fst (execute True midrange_otsu example_patch)) = Some [3 / 4]"
  by (simp add: example_patch_def eval_defs)

theorem water_level_is_ratio_within_nominal_witness:
  "compatible (frame_height (NDWI example_patch)) (height (NOMINAL_WATER example_patch))
   \<and> compatible (frame_width (NDWI example_patch)) (width (NOMINAL_WATER example_patch))
   \<and> 0 < frame_channels (NDWI example_patch)
   \<and> length (frames (NDWI example_patch)) = 1
   \<and> midrange_otsu (replace_nan (view0 (frame_height (NDWI example_patch))
         (frame_width (NDWI example_patch)) (frames (NDWI example_patch) ! 0)))
       = Inr (Fin (- (1 / 10)))
   \<and> 0 < count_nonzero_uint8 (NOMINAL_WATER example_patch)
   \<and> (\<exists>eopatch' water_masks.
         execute True midrange_otsu example_patch = (eopatch', None)
         \<and> WATER_MASK eopatch' = Some water_masks
         \<and> length (frames water_masks) = 1
         \<and> WATER_LEVEL eopatch' = Some [3 / 4])"
proof -
  from water_level_is_ratio_within_nominal
    [OF example_patch_compatible example_patch_hyps(3,4,5,6)]
  obtain eopatch' water_masks
    where "execute True midrange_otsu example_patch = (eopatch', None)"
      and "WATER_MASK eopatch' = Some water_masks"
      and "length (frames water_masks) = length (frames (NDWI example_patch))"
    by blast
  moreover have "length (frames (NDWI example_patch)) = 1"
    by (simp add: example_patch_def)
  ultimately show ?thesis
    using example_patch_compatible example_patch_hyps(3,5) example_patch_otsu
      example_patch_levels
    by auto
qed

text \<open>
  C9. Let the nominal extent have at least one non-zero pixel and, as every mask of a
  patch has, the height and the width of the frames; let the NDWI stack have a channel
  and the threshold function return on the frames it is called on. Then the task
  returns and the water level of every frame lies between 0 and 1: a pixel of the
  masked water mask is non-zero only where the extent is.
\<close>

theorem water_level_within_unit_interval:
  assumes hh: "height (NOMINAL_WATER eopatch) = frame_height (NDWI eopatch)"
    and ww: "width (NOMINAL_WATER eopatch) = frame_width (NDWI eopatch)"
    and c: "0 < frame_channels (NDWI eopatch)"
    and otsu: "\<forall>f \<in> set (frames (NDWI eopatch)).
        1 < len_unique equal_nan
              (ravel2 (view0 (frame_height (NDWI eopatch)) (frame_width (NDWI eopatch)) f))
        \<longrightarrow> \<not> isl (threshold_otsu
              (replace_nan (view0 (frame_height (NDWI eopatch)) (frame_width (NDWI eopatch)) f)))"
    and nz: "0 < count_nonzero_uint8 (NOMINAL_WATER eopatch)"
    and t: "t < length (frames (NDWI eopatch))"
  shows "\<exists>eopatch' water_levels.
           execute equal_nan threshold_otsu eopatch = (eopatch', None)
         \<and> WATER_LEVEL eopatch' = Some water_levels
         \<and> length water_levels = length (frames (NDWI eopatch))
         \<and> 0 \<le> water_levels ! t \<and> water_levels ! t \<le> 1"
proof -
  let ?h = "frame_height (NDWI eopatch)" and ?w = "frame_width (NDWI eopatch)"
  let ?nominal = "NOMINAL_WATER eopatch"
  let ?count = "\<lambda>m. length (filter (\<lambda>(i, j, k). px m i j \<and> cell ?nominal i j k \<noteq> 0)
                     (indices3 ?h ?w (channels ?nominal)))"
  from t have ne: "frames (NDWI eopatch) \<noteq> []" by auto
  have ch: "compatible ?h (height ?nominal)" and cw: "compatible ?w (width ?nominal)"
    by (simp_all add: hh ww compatible_refl)
  from execute_compatible [OF ch cw c ne otsu nz] obtain eopatch' ms
    where ex: "execute equal_nan threshold_otsu eopatch = (eopatch', None)"
      and ms: "list_all2
          (\<lambda>f m. snd (detect_water equal_nan threshold_otsu (view0 ?h ?w f)) = Inr m)
          (frames (NDWI eopatch)) ms"
      and wl0: "WATER_LEVEL eopatch'
          = Some (map (\<lambda>m.
                  real (length (filter
                     (\<lambda>(i, j, k). px m (bc_index ?h i) (bc_index ?w j)
                                  \<and> cell ?nominal (bc_index (height ?nominal) i)
                                      (bc_index (width ?nominal) j) k \<noteq> 0)
                     (indices3 (broadcast_dim ?h (height ?nominal))
                        (broadcast_dim ?w (width ?nominal)) (channels ?nominal))))
                  / real (count_nonzero_uint8 ?nominal)) ms)"
    by blast
  have wl: "WATER_LEVEL eopatch'
          = Some (map (\<lambda>m. real (?count m) / real (count_nonzero_uint8 ?nominal)) ms)"
    using wl0 by (simp only: hh ww same_shape_count)
  have len: "length ms = length (frames (NDWI eopatch))"
    using ms by (simp add: list_all2_lengthD)
  have "?count m \<le> length (filter (\<lambda>(i, j, k). cell ?nominal i j k \<noteq> 0)
                        (indices3 ?h ?w (channels ?nominal)))" for m
    by (rule length_filter_mono) auto
  then have le: "?count m \<le> count_nonzero_uint8 ?nominal" for m
    by (simp add: count_nonzero_uint8_indices hh ww)
  have "real (?count (ms ! t)) / real (count_nonzero_uint8 ?nominal) \<le> 1"
    using le [of "ms ! t"] nz by simp
  moreover have "0 \<le> real (?count (ms ! t)) / real (count_nonzero_uint8 ?nominal)"
    by simp
  moreover have "map (\<lambda>m. real (?count m) / real (count_nonzero_uint8 ?nominal)) ms ! t
      = real (?count (ms ! t)) / real (count_nonzero_uint8 ?nominal)"
    using t len by simp
  ultimately show ?thesis
    using ex wl len by simp
qed

theorem water_level_within_unit_interval_witness:
  "height (NOMINAL_WATER example_patch) = frame_height (NDWI example_patch)
   \<and> width (NOMINAL_WATER example_patch) = frame_width (NDWI example_patch)
   \<and> 0 < frame_channels (NDWI example_patch)
   \<and> midrange_otsu (replace_nan (view0 (frame_height (NDWI example_patch))
         (frame_width (NDWI example_patch)) (frames (NDWI example_patch) ! 0)))
       = Inr (Fin (- (1 / 10)))
   \<and> 0 < count_nonzero_uint8 (NOMINAL_WATER example_patch)
   \<and> 0 < length (frames (NDWI example_patch))
   \<and> (\<exists>eopatch' water_levels.
         execute True midrange_otsu example_patch = (eopatch', None)
         \<and> WATER_LEVEL eopatch' = Some water_levels
         \<and> 0 \<le> water_levels ! 0 \<and> water_levels ! 0 \<le> 1)"
  using water_level_within_unit_interval [OF example_patch_hyps] example_patch_hyps(1,2,3,5,6)
    example_patch_otsu
  by blast

lemma upt3: "[0..<3] = [0, 1, 2]"
  by (simp add: upt_rec)

lemma execute_outputs_on_failure:
  "snd (execute equal_nan threshold_otsu eopatch) \<noteq> None \<Longrightarrow>
     WATER_MASK (fst (execute equal_nan threshold_otsu eopatch)) = WATER_MASK eopatch
     \<and> WATER_LEVEL (fst (execute equal_nan threshold_otsu eopatch)) = WATER_LEVEL eopatch"
  by (auto simp: execute_def Let_def split: prod.splits sum.splits list.splits if_splits)

lemma execute_fails_without_extent:
  "count_nonzero_uint8 (NOMINAL_WATER eopatch) = 0 \<Longrightarrow>
     snd (execute equal_nan threshold_otsu eopatch) \<noteq> None"
  by (auto simp: execute_def Let_def split: prod.splits sum.splits list.splits if_splits)

lemma execute_fails_on_mismatch:
  "\<not> compatible (frame_height (NDWI eopatch)) (height (NOMINAL_WATER eopatch))
     \<or> \<not> compatible (frame_width (NDWI eopatch)) (width (NOMINAL_WATER eopatch)) \<Longrightarrow>
     snd (execute equal_nan threshold_otsu eopatch) \<noteq> None"
  by (auto simp: execute_def Let_def mask_by_nominal_def
      split: prod.splits sum.splits list.splits if_splits)

text \<open>
  C5. When the nominal extent has no non-zero pixel, the task raises an exception and
  writes neither the water mask nor the water level.
\<close>

theorem empty_nominal_extent_fails:
  assumes "count_nonzero_uint8 (NOMINAL_WATER eopatch) = 0"
  shows "snd (execute equal_nan threshold_otsu eopatch) \<noteq> None
         \<and> WATER_MASK (fst (execute equal_nan threshold_otsu eopatch)) = WATER_MASK eopatch
         \<and> WATER_LEVEL (fst (execute equal_nan threshold_otsu eopatch)) = WATER_LEVEL eopatch"
  using assms execute_fails_without_extent execute_outputs_on_failure by blast

theorem empty_nominal_extent_fails_witness:
  "count_nonzero_uint8 (NOMINAL_WATER empty_extent_patch) = 0
   \<and> snd (execute True midrange_otsu empty_extent_patch) = Some ZeroDivisionError
   \<and> WATER_MASK (fst (execute True midrange_otsu empty_extent_patch)) = None"
proof -
  have z: "count_nonzero_uint8 (NOMINAL_WATER empty_extent_patch) = 0"
    by (simp add: empty_extent_patch_def example_patch_def eval_defs)
  have e: "snd (execute True midrange_otsu empty_extent_patch) = Some ZeroDivisionError"
    by (simp add: empty_extent_patch_def example_patch_def eval_defs)
  from empty_nominal_extent_fails [OF z, of True midrange_otsu]
  have "WATER_MASK (fst (execute True midrange_otsu empty_extent_patch))
          = WATER_MASK empty_extent_patch"
    by blast
  then show ?thesis
    using z e by (simp add: empty_extent_patch_def example_patch_def)
qed

text \<open>
  C6 (amended). The water detector raises, and writes no output, whenever the height or
  the width of the frames and of the nominal extent do not combine under broadcasting
  (they differ and neither is 1); the validity-mask builder raises ValueError whenever
  some axis of the data-presence mask and of the cloud mask does not combine.
\<close>

theorem mismatched_grids_fail_unless_broadcast:
  "(\<not> compatible (frame_height (NDWI eopatch)) (height (NOMINAL_WATER eopatch))
      \<or> \<not> compatible (frame_width (NDWI eopatch)) (width (NOMINAL_WATER eopatch))
    \<longrightarrow> snd (execute equal_nan threshold_otsu eopatch) \<noteq> None
        \<and> WATER_MASK (fst (execute equal_nan threshold_otsu eopatch)) = WATER_MASK eopatch
        \<and> WATER_LEVEL (fst (execute equal_nan threshold_otsu eopatch)) = WATER_LEVEL eopatch)
   \<and> (\<not> compatible (length (frames (IS_DATA eopatch))) (length (frames (CLM eopatch)))
      \<or> \<not> compatible (frame_height (IS_DATA eopatch)) (frame_height (CLM eopatch))
      \<or> \<not> compatible (frame_width (IS_DATA eopatch)) (frame_width (CLM eopatch))
      \<or> \<not> compatible (frame_channels (IS_DATA eopatch)) (frame_channels (CLM eopatch))
    \<longrightarrow> calculate_valid_data_mask eopatch = Inl ValueError)"
proof (intro conjI impI)
  assume a: "\<not> compatible (frame_height (NDWI eopatch)) (height (NOMINAL_WATER eopatch))
      \<or> \<not> compatible (frame_width (NDWI eopatch)) (width (NOMINAL_WATER eopatch))"
  then show f: "snd (execute equal_nan threshold_otsu eopatch) \<noteq> None"
    by (rule execute_fails_on_mismatch)
  from execute_outputs_on_failure [OF f]
  show "WATER_MASK (fst (execute equal_nan threshold_otsu eopatch)) = WATER_MASK eopatch"
    and "WATER_LEVEL (fst (execute equal_nan threshold_otsu eopatch)) = WATER_LEVEL eopatch"
    by simp_all
next
  assume "\<not> compatible (length (frames (IS_DATA eopatch))) (length (frames (CLM eopatch)))
      \<or> \<not> compatible (frame_height (IS_DATA eopatch)) (frame_height (CLM eopatch))
      \<or> \<not> compatible (frame_width (IS_DATA eopatch)) (frame_width (CLM eopatch))
      \<or> \<not> compatible (frame_channels (IS_DATA eopatch)) (frame_channels (CLM eopatch))"
  then show "calculate_valid_data_mask eopatch = Inl ValueError"
    by (auto simp: calculate_valid_data_mask_def Let_def)
qed

theorem mismatched_grids_fail_unless_broadcast_witness:
  "\<not> compatible (frame_height (NDWI mismatched_patch)) (height (NOMINAL_WATER mismatched_patch))
   \<and> \<not> compatible (frame_height (IS_DATA mismatched_patch)) (frame_height (CLM mismatched_patch))
   \<and> snd (execute True midrange_otsu mismatched_patch) \<noteq> None
   \<and> calculate_valid_data_mask mismatched_patch = Inl ValueError"
proof -
  have "\<not> compatible (frame_height (NDWI mismatched_patch)) (height (NOMINAL_WATER mismatched_patch))"
    and "\<not> compatible (frame_height (IS_DATA mismatched_patch)) (frame_height (CLM mismatched_patch))"
    by (simp_all add: mismatched_patch_def example_patch_def compatible_def)
  then show ?thesis
    using mismatched_grids_fail_unless_broadcast [of mismatched_patch True midrange_otsu]
    by blast
qed

text \<open>
  C6 as stated fails: grids that differ in an axis of length 1 are combined without an
  error. The frames are 3 pixels wide, the nominal extent is 1 pixel wide, and the task
  returns with a water mask.
\<close>

theorem mismatched_grids_combined_counterexample:
  "frame_width (NDWI broadcast_patch) = 3 \<and> width (NOMINAL_WATER broadcast_patch) = 1
   \<and> snd (execute True midrange_otsu broadcast_patch) = None
   \<and> WATER_MASK (fst (execute True midrange_otsu broadcast_patch)) \<noteq> None"
  by (simp add: broadcast_patch_def eval_defs upt3)

lemma written_cell:
  "write_view0 (fst (detect_water equal_nan threshold_otsu (view0 h w f))) f i j k
     = (if k = 0 \<and> 1 < len_unique equal_nan (ravel2 (view0 h w f)) \<and> f i j 0 = NaN
        then Fin (- 1) else f i j k)"
  by (simp add: fst_detect_water write_view0_def view0_def replace_nan_def isnan_def)

lemma execute_keeps_inputs:
  "IS_DATA (fst (execute equal_nan threshold_otsu eopatch)) = IS_DATA eopatch
   \<and> CLM (fst (execute equal_nan threshold_otsu eopatch)) = CLM eopatch
   \<and> NOMINAL_WATER (fst (execute equal_nan threshold_otsu eopatch)) = NOMINAL_WATER eopatch
   \<and> eopatch.more (fst (execute equal_nan threshold_otsu eopatch)) = eopatch.more eopatch
   \<and> NDWI (fst (execute equal_nan threshold_otsu eopatch))
       = (NDWI eopatch)\<lparr>frames :=
            fst (detect_frames equal_nan threshold_otsu (frame_height (NDWI eopatch))
                   (frame_width (NDWI eopatch)) (frame_channels (NDWI eopatch))
                   (frames (NDWI eopatch)))\<rparr>"
  by (auto simp: execute_def Let_def split: prod.splits sum.splits list.splits if_splits)

lemma execute_success_detects:
  "snd (execute equal_nan threshold_otsu eopatch) = None \<Longrightarrow>
     \<exists>ms. snd (detect_frames equal_nan threshold_otsu (frame_height (NDWI eopatch))
                   (frame_width (NDWI eopatch)) (frame_channels (NDWI eopatch))
                   (frames (NDWI eopatch))) = Inr ms"
  by (auto simp: execute_def Let_def split: prod.splits sum.splits list.splits if_splits)

text \<open>
  C8 (amended). The task is a function of its input, it writes only the water mask and
  the water level (and neither of them when it raises), and it leaves every other feature
  of the patch as it was, except the NDWI stack: there it overwrites NaN values of
  channel 0 with -1, and nothing else. When the task returns, the overwritten values are
  exactly the NaN values of channel 0 in the frames whose channel 0 has more than one
  distinct value.
\<close>

theorem execute_changes_only_nan_and_outputs:
  "IS_DATA (fst (execute equal_nan threshold_otsu eopatch)) = IS_DATA eopatch
   \<and> CLM (fst (execute equal_nan threshold_otsu eopatch)) = CLM eopatch
   \<and> NOMINAL_WATER (fst (execute equal_nan threshold_otsu eopatch)) = NOMINAL_WATER eopatch
   \<and> eopatch.more (fst (execute equal_nan threshold_otsu eopatch)) = eopatch.more eopatch
   \<and> frame_height (NDWI (fst (execute equal_nan threshold_otsu eopatch)))
       = frame_height (NDWI eopatch)
   \<and> frame_width (NDWI (fst (execute equal_nan threshold_otsu eopatch)))
       = frame_width (NDWI eopatch)
   \<and> frame_channels (NDWI (fst (execute equal_nan threshold_otsu eopatch)))
       = frame_channels (NDWI eopatch)
   \<and> length (frames (NDWI (fst (execute equal_nan threshold_otsu eopatch))))
       = length (frames (NDWI eopatch))
   \<and> (\<forall>t < length (frames (NDWI eopatch)). \<forall>i j k.
         (frames (NDWI (fst (execute equal_nan threshold_otsu eopatch))) ! t) i j k
           = (frames (NDWI eopatch) ! t) i j k
         \<or> k = 0 \<and> (frames (NDWI eopatch) ! t) i j k = NaN
           \<and> (frames (NDWI (fst (execute equal_nan threshold_otsu eopatch))) ! t) i j k
               = Fin (- 1))
   \<and> (snd (execute equal_nan threshold_otsu eopatch) = None \<longrightarrow>
        (\<forall>t < length (frames (NDWI eopatch)). \<forall>i j k.
           (frames (NDWI (fst (execute equal_nan threshold_otsu eopatch))) ! t) i j k
             = (if k = 0
                   \<and> 1 < len_unique equal_nan
                           (ravel2 (view0 (frame_height (NDWI eopatch))
                              (frame_width (NDWI eopatch)) (frames (NDWI eopatch) ! t)))
                   \<and> (frames (NDWI eopatch) ! t) i j 0 = NaN
                then Fin (- 1) else (frames (NDWI eopatch) ! t) i j k)))
   \<and> (snd (execute equal_nan threshold_otsu eopatch) \<noteq> None \<longrightarrow>
        WATER_MASK (fst (execute equal_nan threshold_otsu eopatch)) = WATER_MASK eopatch
        \<and> WATER_LEVEL (fst (execute equal_nan threshold_otsu eopatch)) = WATER_LEVEL eopatch)
   \<and> (other = eopatch \<longrightarrow>
        execute equal_nan threshold_otsu other = execute equal_nan threshold_otsu eopatch)"
proof -
  let ?h = "frame_height (NDWI eopatch)" and ?w = "frame_width (NDWI eopatch)"
  let ?c = "frame_channels (NDWI eopatch)" and ?fs = "frames (NDWI eopatch)"
  let ?d = "detect_frames equal_nan threshold_otsu ?h ?w ?c ?fs"
  let ?after = "fst (execute equal_nan threshold_otsu eopatch)"
  note keep = execute_keeps_inputs [of equal_nan threshold_otsu eopatch]
  have ndwi: "NDWI ?after = (NDWI eopatch)\<lparr>frames := fst ?d\<rparr>"
    using keep by blast
  have len: "length (fst ?d) = length ?fs"
    by (rule detect_frames_length)
  have touched: "\<forall>t < length ?fs. \<forall>i j k.
         (fst ?d ! t) i j k = (?fs ! t) i j k
         \<or> k = 0 \<and> (?fs ! t) i j k = NaN \<and> (fst ?d ! t) i j k = Fin (- 1)"
  proof (intro allI impI)
    fix t i j k
    assume t: "t < length ?fs"
    from list_all2_nthD [OF detect_frames_touched t, of equal_nan threshold_otsu ?h ?w ?c]
    have "fst ?d ! t = ?fs ! t
          \<or> fst ?d ! t = write_view0 (fst (detect_water equal_nan threshold_otsu
                                               (view0 ?h ?w (?fs ! t)))) (?fs ! t)" .
    then show "(fst ?d ! t) i j k = (?fs ! t) i j k
         \<or> k = 0 \<and> (?fs ! t) i j k = NaN \<and> (fst ?d ! t) i j k = Fin (- 1)"
      by (auto simp: written_cell split: if_splits)
  qed
  have exact: "snd (execute equal_nan threshold_otsu eopatch) = None \<longrightarrow>
        (\<forall>t < length ?fs. \<forall>i j k.
           (fst ?d ! t) i j k
             = (if k = 0 \<and> 1 < len_unique equal_nan (ravel2 (view0 ?h ?w (?fs ! t)))
                   \<and> (?fs ! t) i j 0 = NaN
                then Fin (- 1) else (?fs ! t) i j k))"
  proof (intro allI impI)
    fix t i j k
    assume "snd (execute equal_nan threshold_otsu eopatch) = None" and t: "t < length ?fs"
    then obtain ms where "snd ?d = Inr ms"
      using execute_success_detects by blast
    then have "fst ?d = map (\<lambda>f. write_view0 (fst (detect_water equal_nan threshold_otsu
                                               (view0 ?h ?w f))) f) ?fs"
      using detect_frames_result by blast
    then show "(fst ?d ! t) i j k
             = (if k = 0 \<and> 1 < len_unique equal_nan (ravel2 (view0 ?h ?w (?fs ! t)))
                   \<and> (?fs ! t) i j 0 = NaN
                then Fin (- 1) else (?fs ! t) i j k)"
      using t by (simp add: written_cell)
  qed
  show ?thesis
    using keep len touched exact
      execute_outputs_on_failure [of equal_nan threshold_otsu eopatch]
    by (simp add: ndwi)
qed

theorem execute_changes_only_nan_and_outputs_witness:
  "snd (execute True midrange_otsu example_patch) = None
   \<and> IS_DATA (fst (execute True midrange_otsu example_patch)) = IS_DATA example_patch
   \<and> (0::nat) < length (frames (NDWI example_patch))
   \<and> (frames (NDWI (fst (execute True midrange_otsu example_patch))) ! 0) 0 0 0 = Fin (8 / 10)
   \<and> (frames (NDWI (fst (execute True midrange_otsu example_patch))) ! 0) 1 1 0 = Fin (- 1)"
proof -
  have ok: "snd (execute True midrange_otsu example_patch) = None"
    by (simp add: example_patch_def eval_defs)
  have t: "(0::nat) < length (frames (NDWI example_patch))"
    by (simp add: example_patch_def)
  note inst = execute_changes_only_nan_and_outputs [of True midrange_otsu example_patch example_patch]
  from inst ok have exact: "\<forall>t < length (frames (NDWI example_patch)). \<forall>i j k.
           (frames (NDWI (fst (execute True midrange_otsu example_patch))) ! t) i j k
             = (if k = 0
                   \<and> 1 < len_unique True
                           (ravel2 (view0 (frame_height (NDWI example_patch))
                              (frame_width (NDWI example_patch)) (frames (NDWI example_patch) ! t)))
                   \<and> (frames (NDWI example_patch) ! t) i j 0 = NaN
                then Fin (- 1) else (frames (NDWI example_patch) ! t) i j k)"
    by blast
  have "(frames (NDWI (fst (execute True midrange_otsu example_patch))) ! 0) 0 0 0 = Fin (8 / 10)"
    using exact t by (simp add: example_patch_def eval_defs)
  moreover have "(frames (NDWI (fst (execute True midrange_otsu example_patch))) ! 0) 1 1 0 = Fin (- 1)"
    using exact t by (simp add: example_patch_def eval_defs)
  ultimately show ?thesis
    using inst ok t by blast
qed

text \<open>
  C8 as stated fails: the input NDWI stack is changed. The NaN pixel of the example
  frame holds -1 after the task has run.
\<close>

theorem input_stack_changed_counterexample:
  "(frames (NDWI example_patch) ! 0) 1 1 0 = NaN
   \<and> (frames (NDWI (fst (execute True midrange_otsu example_patch))) ! 0) 1 1 0 = Fin (- 1)"
  by (simp add: example_patch_def eval_defs)

lemma ravel2_replace_nan:
  "ravel2 (replace_nan a) = map (\<lambda>x. if isnan x then Fin (- 1) else x) (ravel2 a)"
  by (simp add: ravel2_def replace_nan_def map_concat comp_def)

lemma len_unique_map_replace:
  "len_unique equal_nan (map (\<lambda>x. if isnan x then Fin (- 1) else x) xs) \<le> len_unique equal_nan xs"
proof (cases equal_nan)
  case True
  have "card ((\<lambda>x. if isnan x then Fin (- 1) else x) ` set xs) \<le> card (set xs)"
    by (rule card_image_le) simp
  then show ?thesis
    using True by (simp add: len_unique_def length_remdups_card_conv)
next
  case False
  let ?g = "\<lambda>x. if isnan x then Fin (- 1) else x"
  have no_nan: "filter isnan (map ?g xs) = []"
    by (induction xs) (simp_all add: isnan_def)
  have all: "filter (\<lambda>x. \<not> isnan x) (map ?g xs) = map ?g xs"
    by (induction xs) (simp_all add: isnan_def)
  have lhs: "len_unique equal_nan (map ?g xs) = card (?g ` set xs)"
    using False by (simp add: len_unique_def no_nan all length_remdups_card_conv)
  have rhs: "len_unique equal_nan xs
               = card {x \<in> set xs. \<not> isnan x} + length (filter isnan xs)"
    using False by (simp add: len_unique_def length_remdups_card_conv)
  show ?thesis
  proof (cases "NaN \<in> set xs")
    case True
    have "?g ` set xs \<subseteq> insert (Fin (- 1)) {x \<in> set xs. \<not> isnan x}"
      by auto
    then have "card (?g ` set xs) \<le> card (insert (Fin (- 1)) {x \<in> set xs. \<not> isnan x})"
      by (intro card_mono) simp_all
    also have "\<dots> \<le> card {x \<in> set xs. \<not> isnan x} + 1"
      by (simp add: card_insert_if)
    also have "1 \<le> length (filter isnan xs)"
      using True by (induction xs) (auto simp: isnan_def)
    finally show ?thesis
      by (simp add: lhs rhs)
  next
    case False
    then have "?g ` set xs = {x \<in> set xs. \<not> isnan x}"
      by (auto simp: isnan_def image_iff)
    then show ?thesis
      by (simp add: lhs rhs)
  qed
qed

lemma len_unique_replace_le:
  "len_unique equal_nan (ravel2 (replace_nan a)) \<le> len_unique equal_nan (ravel2 a)"
  by (simp add: ravel2_replace_nan len_unique_map_replace)

lemma greater_than_default_replace_nan:
  "greater_than (replace_nan ndwi) (Fin 1) = greater_than ndwi (Fin 1)"
proof -
  have "fl_gt (if isnan v then Fin (- 1) else v) (Fin 1) = fl_gt v (Fin 1)" for v
    by (cases v) (simp_all add: isnan_def)
  then show ?thesis
    by (simp add: greater_than_def replace_nan_def)
qed

text \<open>
  The mask of the code is the mask of the detector as the specification words it, for
  every frame but those that have more than one distinct value as given and a single
  one once NaN is replaced: the frames that hold only -1 and NaN.
\<close>

lemma detect_water_matches_spec_unless_constant_after_replacing:
  assumes "\<not> (1 < len_unique equal_nan (ravel2 ndwi)
               \<and> len_unique equal_nan (ravel2 (replace_nan ndwi)) \<le> 1)"
  shows "snd (detect_water equal_nan threshold_otsu ndwi)
           = detect_water_spec equal_nan threshold_otsu ndwi"
proof (cases "1 < len_unique equal_nan (ravel2 (replace_nan ndwi))")
  case True
  with len_unique_replace_le [of equal_nan ndwi]
  have "1 < len_unique equal_nan (ravel2 ndwi)" by simp
  with True show ?thesis
    by (simp add: detect_water_def detect_water_spec_def Let_def split: sum.splits)
next
  case False
  with assms have "\<not> 1 < len_unique equal_nan (ravel2 ndwi)" by simp
  with False show ?thesis
    by (simp add: detect_water_def detect_water_spec_def Let_def
        greater_than_default_replace_nan)
qed


section \<open>Properties of the OpenStreetMap input task\<close>

text \<open>
  C10. Without a bounding box the task raises ValueError, sends no request and leaves
  the patch as it was. A request is sent only when the patch has a bounding box, and at
  most one request is sent, after the bounding box has been transformed.
\<close>

theorem osm_execute_requires_bbox:
  "(bbox eopatch = None \<longrightarrow>
      osm_execute lib self (eopatch, requests) = ((eopatch, requests), Some ValueError))
   \<and> (snd (fst (osm_execute lib self (eopatch, requests))) \<noteq> requests \<longrightarrow> bbox eopatch \<noteq> None)
   \<and> (snd (fst (osm_execute lib self (eopatch, requests))) = requests
       \<or> (\<exists>box ll_bounds. bbox eopatch = Some box \<and> transform_wgs84 lib box = Inr ll_bounds
            \<and> snd (fst (osm_execute lib self (eopatch, requests)))
                = requests @ [query self @ format_reversed lib ll_bounds]))"
  by (auto simp: osm_execute_def Let_def split: option.splits sum.splits)

theorem osm_execute_requires_bbox_witness:
  "bbox no_bbox_patch = None
   \<and> osm_execute example_library osm_task (no_bbox_patch, []) = ((no_bbox_patch, []), Some ValueError)
   \<and> snd (fst (osm_execute example_library osm_task (no_bbox_patch\<lparr>bbox := Some 7\<rparr>, [])))
       = [''way[landuse=residential](0, 0, 1, 1)'']
   \<and> bbox (no_bbox_patch\<lparr>bbox := Some 7\<rparr>) \<noteq> None"
proof -
  have a: "bbox no_bbox_patch = None"
    by (simp add: no_bbox_patch_def)
  have b: "snd (fst (osm_execute example_library osm_task (no_bbox_patch\<lparr>bbox := Some 7\<rparr>, [])))
       = [''way[landuse=residential](0, 0, 1, 1)'']"
    by (simp add: osm_execute_def no_bbox_patch_def example_library_def osm_task_def)
  show ?thesis
    using osm_execute_requires_bbox [of no_bbox_patch example_library osm_task "[]"]
      osm_execute_requires_bbox [of "no_bbox_patch\<lparr>bbox := Some 7\<rparr>" example_library osm_task "[]"]
      a b
    by simp
qed

end
